theory Spec2Isabelle
  imports Main
begin

section \<open>The code executor: data model\<close>

text \<open>
  The development embeds \<^verbatim>\<open>code-executor/main.py\<close> (the \<^verbatim>\<open>/execute\<close> endpoint
  with its three runners) and the status reader of \<^verbatim>\<open>backend-api/main.py\<close>.
  Everything the endpoint does to the outside world is recorded, in order, in a list of
  effects; everything the outside world answers (clock, directory listing, path joining,
  child process, library parsers, failing file operations) is read from an environment
  record.
\<close>

subsection \<open>JSON values\<close>

text \<open>The values \<^verbatim>\<open>json.loads\<close> produces and \<^verbatim>\<open>json.dump\<close> writes. A float keeps its literal.\<close>

datatype json =
    JNull
  | JBool bool
  | JInt int
  | JFloat string
  | JStr string
  | JArr "json list"
  | JObj "(string \<times> json) list"

fun is_mapping :: "json \<Rightarrow> bool" where
  "is_mapping (JObj kvs) = True"
| "is_mapping v = False"

fun is_list :: "json \<Rightarrow> bool" where
  "is_list (JArr vs) = True"
| "is_list v = False"

fun is_scalar :: "json \<Rightarrow> bool" where
  "is_scalar (JArr vs) = False"
| "is_scalar (JObj kvs) = False"
| "is_scalar v = True"

text \<open>How deeply containers are nested in a value: 0 for a scalar, 1 for a flat list or object.\<close>

primrec nesting :: "json \<Rightarrow> nat" where
  "nesting JNull = 0"
| "nesting (JBool b) = 0"
| "nesting (JInt i) = 0"
| "nesting (JFloat f) = 0"
| "nesting (JStr s) = 0"
| "nesting (JArr vs) = Suc (foldr max (map nesting vs) 0)"
| "nesting (JObj kvs) = Suc (foldr max (map snd (map (map_prod id nesting) kvs)) 0)"

subsection \<open>Request and status models\<close>

type_synonym datetime = nat

text \<open>\<^verbatim>\<open>class ExecutionRequest(BaseModel)\<close>; \<^verbatim>\<open>parameters\<close> is optional.\<close>

record ExecutionRequest =
  req_study_id :: string
  req_execution_id :: string
  parameters :: "json option"
  timeout :: int

text \<open>\<^verbatim>\<open>timeout: int = Field(default=300, ge=10, le=3600)\<close>, checked before the endpoint runs.\<close>

definition valid_request :: "ExecutionRequest \<Rightarrow> bool" where
  "valid_request r = (10 \<le> timeout r \<and> timeout r \<le> 3600)"

text \<open>\<^verbatim>\<open>class ExecutionStatus(BaseModel)\<close>; \<^verbatim>\<open>status\<close> is a plain string in the source.\<close>

record ExecutionStatus =
  study_id :: string
  execution_id :: string
  status :: string
  created_at :: datetime
  completed_at :: "datetime option"
  error_message :: "string option"
  results_available :: bool

text \<open>\<^verbatim>\<open>class StudyStatus(BaseModel)\<close> of the backend: the same fields without \<^verbatim>\<open>results_available\<close>.\<close>

record StudyStatus =
  ss_study_id :: string
  ss_execution_id :: string
  ss_status :: string
  ss_created_at :: datetime
  ss_completed_at :: "datetime option"
  ss_error_message :: "string option"

subsection \<open>Exceptions\<close>

datatype exn =
    HTTPException int string
  | Exception string
  | OSError string
  | UnboundLocalError string
  | LibraryError string

subsection \<open>Effects and the environment\<close>

text \<open>
  What a file of the execution directory holds: a whole document, or something that is
  not one (the file was opened with mode \<^verbatim>\<open>"w"\<close>, which empties it, and the document has
  not been written to the end; or the bytes are not a document at all).
\<close>

datatype 'a content = Torn | Whole 'a

text \<open>
  What one call of the endpoint does, in program order: creating the execution directory;
  opening \<^verbatim>\<open>status.json\<close> and \<^verbatim>\<open>results.json\<close> with mode \<^verbatim>\<open>"w"\<close> and, as a later step,
  having dumped the whole document into them; opening and writing \<^verbatim>\<open>execution.log\<close>;
  calling \<^verbatim>\<open>subprocess.run\<close> on a command line. The child process runs with the
  execution directory as its working directory, so it can replace \<^verbatim>\<open>status.json\<close> itself:
  that is the effect \<open>ChildWrote\<close>.
\<close>

datatype effect =
    Mkdir
  | OpenStatus
  | WriteStatus ExecutionStatus
  | OpenResults
  | WriteResults json
  | OpenLog
  | LogWrite string
  | Run "string list"
  | ChildWrote "ExecutionStatus content"

text \<open>
  The three ways \<^verbatim>\<open>subprocess.run(..., capture_output=True, timeout=t)\<close> ends: a
  \<^verbatim>\<open>CompletedProcess\<close> (return code, stdout, stderr); \<^verbatim>\<open>TimeoutExpired\<close>, which carries the
  output captured before the child was killed; any other exception, with its text.
\<close>

datatype run_outcome =
    Completed int string string
  | TimeoutExpired string string
  | RunError string

text \<open>The file operations that can raise, one per place in the source.\<close>

datatype io_site =
    Mkdir_exec_dir
  | Open_status_running
  | Open_log
  | Open_results
  | Open_status_completed
  | Open_status_failed

record env =
  utcnow_created :: datetime
  utcnow_completed :: datetime
  utcnow_failed :: datetime
  study_dir :: "string list option"
  study_path :: "string \<Rightarrow> string \<Rightarrow> string"
  subprocess_run :: "string list \<Rightarrow> int \<Rightarrow> run_outcome"
  child_status_writes :: "string list \<Rightarrow> ExecutionStatus content list"
  json_loads :: "string \<Rightarrow> json option"
  json_dumps :: "json option \<Rightarrow> string"
  dump_depth :: nat
  recursion_error :: string
  read_sql :: "nat \<Rightarrow> string + json list"
  io_error :: "io_site \<Rightarrow> string option"
  http_exception_str :: "int \<Rightarrow> string \<Rightarrow> string"

text \<open>
  \<^item> \<open>utcnow_created\<close>, \<open>utcnow_completed\<close>, \<open>utcnow_failed\<close>: what \<^verbatim>\<open>datetime.utcnow()\<close>
    returns, in seconds, where the status is created, completed and failed.
  \<^item> \<open>study_dir\<close>: the entry names of the request's study directory in the order the
    directory is enumerated, \<open>None\<close> when it does not exist.
  \<^item> \<open>study_path sid name\<close>: the text of the path \<^verbatim>\<open>Path("/studies") / sid / name\<close>, as
    \<^verbatim>\<open>pathlib\<close> joins it.
  \<^item> \<open>subprocess_run cmd t\<close>: how the child process started with \<open>cmd\<close> under timeout \<open>t\<close> ends.
  \<^item> \<open>child_status_writes cmd\<close>: what that child process stores in \<^verbatim>\<open>status.json\<close> of its
    working directory while it runs, in order; empty when it leaves the file alone.
  \<^item> \<open>json_loads s\<close>: the parsed value, \<open>None\<close> when \<^verbatim>\<open>json.loads\<close> raises.
  \<^item> \<open>json_dumps\<close>: \<^verbatim>\<open>json.dumps\<close> on the request parameters.
  \<^item> \<open>dump_depth\<close>, \<open>recursion_error\<close>: \<^verbatim>\<open>json.dump(..., indent=2)\<close> recurses over the
    document; it writes every document with at most \<open>1 + dump_depth\<close> levels of nested
    containers and raises \<^verbatim>\<open>RecursionError\<close>, with this text, on a deeper one.
  \<^item> \<open>read_sql i\<close>: the rows of the \<open>i\<close>-th query of the default analysis, or the text of the
    exception \<^verbatim>\<open>pd.read_sql\<close> raises.
  \<^item> \<open>io_error site\<close>: the text of the \<^verbatim>\<open>OSError\<close> raised at \<open>site\<close>, \<open>None\<close> when it succeeds.
  \<^item> \<open>http_exception_str code detail\<close>: \<^verbatim>\<open>str(HTTPException(code, detail))\<close>, which depends on
    the installed framework version.
\<close>

definition json_dump_raises :: "env \<Rightarrow> json \<Rightarrow> bool" where
  "json_dump_raises E v = (Suc (dump_depth E) < nesting v)"

definition all_io_sites :: "io_site list" where
  "all_io_sites =
     [Mkdir_exec_dir, Open_status_running, Open_log, Open_results,
      Open_status_completed, Open_status_failed]"

definition store_ok :: "env \<Rightarrow> bool" where
  "store_ok E = list_all (\<lambda>s. io_error E s = None) all_io_sites"

text \<open>The status document itself can be written: its directory and its three writes.\<close>

definition status_writable :: "env \<Rightarrow> bool" where
  "status_writable E =
     list_all (\<lambda>s. io_error E s = None)
       [Mkdir_exec_dir, Open_status_running, Open_status_completed, Open_status_failed]"

text \<open>A runner can be started: the directory, the first status write and the log open.\<close>

definition can_start :: "env \<Rightarrow> bool" where
  "can_start E =
     list_all (\<lambda>s. io_error E s = None) [Mkdir_exec_dir, Open_status_running, Open_log]"

type_synonym 'a io = "(exn + 'a) \<times> effect list"

section \<open>Strings\<close>

text \<open>\<^verbatim>\<open>str(n)\<close> for an integer, as the f-strings of the error messages format it.\<close>

fun str_nat :: "nat \<Rightarrow> string" where
  "str_nat n =
     (if n < 10 then [''0123456789'' ! n]
      else str_nat (n div 10) @ [''0123456789'' ! (n mod 10)])"

declare str_nat.simps [simp del]

definition str_int :: "int \<Rightarrow> string" where
  "str_int i = (if i < 0 then CHR ''-'' # str_nat (nat (- i)) else str_nat (nat i))"

definition endswith :: "string \<Rightarrow> string \<Rightarrow> bool" where
  "endswith s suf = (length suf \<le> length s \<and> drop (length s - length suf) s = suf)"

text \<open>
  \<^verbatim>\<open>study_dir.glob("*.R")\<close>: the entries whose name ends with the extension, in the order of
  the directory enumeration, each as the text of its path.
\<close>

definition glob_ext :: "env \<Rightarrow> string \<Rightarrow> string \<Rightarrow> string list \<Rightarrow> string list" where
  "glob_ext E sid ext names = map (study_path E sid) (filter (\<lambda>n. endswith n ext) names)"

fun str_exn :: "env \<Rightarrow> exn \<Rightarrow> string" where
  "str_exn E (HTTPException c d) = http_exception_str E c d"
| "str_exn E (Exception m) = m"
| "str_exn E (OSError m) = m"
| "str_exn E (UnboundLocalError m) = m"
| "str_exn E (LibraryError m) = m"

section \<open>The runners\<close>

text \<open>
  \<^verbatim>\<open>execute_r_script\<close>. The log is opened first; the child runs, and may write into its
  working directory; a timeout leaves the \<^verbatim>\<open>with\<close> block before the output sections are
  written; a return code other than 0 raises after they are written; the bare \<^verbatim>\<open>except\<close>
  around \<^verbatim>\<open>json.loads\<close> turns every parse failure into the text record.
\<close>

definition execute_r_script :: "env \<Rightarrow> string \<Rightarrow> json option \<Rightarrow> int \<Rightarrow> json io" where
  "execute_r_script E script_path params tmo =
     (case io_error E Open_log of
        Some m \<Rightarrow> (Inl (OSError m), [])
      | None \<Rightarrow>
          let header =
                [OpenLog,
                 LogWrite (''Executing R script: '' @ script_path @ ''\<newline>''),
                 LogWrite (''Parameters: '' @ json_dumps E params @ ''\<newline>\<newline>''),
                 Run [''Rscript'', script_path]]
                @ map ChildWrote (child_status_writes E [''Rscript'', script_path])
          in (case subprocess_run E [''Rscript'', script_path] tmo of
                TimeoutExpired out err \<Rightarrow>
                  (Inl (Exception (''R script execution timed out after '' @ str_int tmo
                          @ '' seconds'')), header)
              | RunError m \<Rightarrow> (Inl (LibraryError m), header)
              | Completed rc out err \<Rightarrow>
                  let tr = header @
                        [LogWrite ''=== STDOUT ===\<newline>'', LogWrite out,
                         LogWrite ''\<newline>=== STDERR ===\<newline>'', LogWrite err]
                  in if rc \<noteq> 0
                     then (Inl (Exception (''R script failed with code '' @ str_int rc
                                  @ '': '' @ err)), tr)
                     else (case json_loads E out of
                             Some v \<Rightarrow> (Inr v, tr)
                           | None \<Rightarrow>
                               (Inr (JObj [(''output'', JStr out), (''type'', JStr ''text'')]),
                                tr))))"

text \<open>\<^verbatim>\<open>execute_python_script\<close>: the same body with \<^verbatim>\<open>python3\<close> and its own messages.\<close>

definition execute_python_script :: "env \<Rightarrow> string \<Rightarrow> json option \<Rightarrow> int \<Rightarrow> json io" where
  "execute_python_script E script_path params tmo =
     (case io_error E Open_log of
        Some m \<Rightarrow> (Inl (OSError m), [])
      | None \<Rightarrow>
          let header =
                [OpenLog,
                 LogWrite (''Executing Python script: '' @ script_path @ ''\<newline>''),
                 LogWrite (''Parameters: '' @ json_dumps E params @ ''\<newline>\<newline>''),
                 Run [''python3'', script_path]]
                @ map ChildWrote (child_status_writes E [''python3'', script_path])
          in (case subprocess_run E [''python3'', script_path] tmo of
                TimeoutExpired out err \<Rightarrow>
                  (Inl (Exception (''Python script execution timed out after '' @ str_int tmo
                          @ '' seconds'')), header)
              | RunError m \<Rightarrow> (Inl (LibraryError m), header)
              | Completed rc out err \<Rightarrow>
                  let tr = header @
                        [LogWrite ''=== STDOUT ===\<newline>'', LogWrite out,
                         LogWrite ''\<newline>=== STDERR ===\<newline>'', LogWrite err]
                  in if rc \<noteq> 0
                     then (Inl (Exception (''Python script failed with code '' @ str_int rc
                                  @ '': '' @ err)), tr)
                     else (case json_loads E out of
                             Some v \<Rightarrow> (Inr v, tr)
                           | None \<Rightarrow>
                               (Inr (JObj [(''output'', JStr out), (''type'', JStr ''text'')]),
                                tr))))"

text \<open>
  \<^verbatim>\<open>run_default_cohort_analysis\<close>: four queries in turn, a log line after each. The body of
  the \<^verbatim>\<open>try\<close> is \<open>default_queries\<close>; the result dictionary takes row 0 of the second and
  third frame, which raises \<^verbatim>\<open>IndexError\<close> on an empty frame. Every exception is re-raised
  with the prefix of the \<^verbatim>\<open>except\<close> clause. The function takes no timeout and starts no
  child process.
\<close>

definition default_queries :: "env \<Rightarrow> json io" where
  "default_queries E =
     (case io_error E Open_log of
        Some m \<Rightarrow> (Inl (OSError m), [])
      | None \<Rightarrow>
          let t0 = [OpenLog, LogWrite ''Running default cohort analysis\<newline>\<newline>'']
          in (case read_sql E 0 of
                Inl m \<Rightarrow> (Inl (LibraryError m), t0)
              | Inr demographics \<Rightarrow>
                  let t1 = t0 @ [LogWrite (''Demographics: '' @ str_nat (length demographics)
                                   @ '' rows\<newline>'')]
                  in (case read_sql E 1 of
                        Inl m \<Rightarrow> (Inl (LibraryError m), t1)
                      | Inr visits \<Rightarrow>
                          let t2 = t1 @ [LogWrite ''Visit statistics calculated\<newline>'']
                          in (case read_sql E 2 of
                                Inl m \<Rightarrow> (Inl (LibraryError m), t2)
                              | Inr icu \<Rightarrow>
                                  let t3 = t2 @ [LogWrite ''ICU statistics calculated\<newline>'']
                                  in (case read_sql E 3 of
                                        Inl m \<Rightarrow> (Inl (LibraryError m), t3)
                                      | Inr diagnoses \<Rightarrow>
                                          let t4 = t3 @ [LogWrite (''Top diagnoses: ''
                                                @ str_nat (length diagnoses) @ '' found\<newline>'')]
                                          in (case visits of
                                                [] \<Rightarrow> (Inl (LibraryError ''list index out of range''), t4)
                                              | v0 # _ \<Rightarrow>
                                                 (case icu of
                                                    [] \<Rightarrow> (Inl (LibraryError ''list index out of range''), t4)
                                                  | i0 # _ \<Rightarrow>
                                                     (Inr (JObj
                                                        [(''analysis_type'', JStr ''cohort_characterization''),
                                                         (''demographics'', JArr demographics),
                                                         (''visit_statistics'', v0),
                                                         (''icu_statistics'', i0),
                                                         (''top_diagnoses'', JArr diagnoses)]), t4))))))))"

definition run_default_cohort_analysis :: "env \<Rightarrow> json io" where
  "run_default_cohort_analysis E =
     (case default_queries E of
        (Inl e, tr) \<Rightarrow> (Inl (Exception (''Default cohort analysis failed: '' @ str_exn E e)), tr)
      | (Inr v, tr) \<Rightarrow> (Inr v, tr))"

section \<open>The endpoint\<close>

text \<open>
  The body of the \<^verbatim>\<open>try\<close> block of \<^verbatim>\<open>execute_study\<close>. The handler reads the local
  variable \<^verbatim>\<open>status\<close>, which the body assigns and later mutates, so an exception leaves
  the body together with the value \<^verbatim>\<open>status\<close> has at that moment (\<open>None\<close> while it is
  still unassigned). The fields \<^verbatim>\<open>status\<close>, \<^verbatim>\<open>completed_at\<close> and \<^verbatim>\<open>results_available\<close> are
  updated before \<^verbatim>\<open>results.json\<close> is written. Writing \<^verbatim>\<open>results.json\<close> can fail twice: at
  the \<^verbatim>\<open>open\<close>, and in \<^verbatim>\<open>json.dump\<close> after the file has been opened and emptied.
\<close>

definition execute_study_try ::
    "env \<Rightarrow> ExecutionRequest \<Rightarrow> ((exn \<times> ExecutionStatus option) + ExecutionStatus) \<times> effect list" where
  "execute_study_try E request =
     (case io_error E Mkdir_exec_dir of
        Some m \<Rightarrow> (Inl (OSError m, None), [])
      | None \<Rightarrow>
          let status0 = \<lparr>study_id = req_study_id request,
                         execution_id = req_execution_id request,
                         status = ''running'',
                         created_at = utcnow_created E,
                         completed_at = None,
                         error_message = None,
                         results_available = False\<rparr>
          in (case io_error E Open_status_running of
                Some m \<Rightarrow> (Inl (OSError m, Some status0), [Mkdir])
              | None \<Rightarrow>
                  let t0 = [Mkdir, OpenStatus, WriteStatus status0]
                  in (case study_dir E of
                        None \<Rightarrow> (Inl (HTTPException 404 ''Study not found'', Some status0), t0)
                      | Some names \<Rightarrow>
                          let r_scripts = glob_ext E (req_study_id request) ''.R'' names;
                              py_scripts = glob_ext E (req_study_id request) ''.py'' names;
                              (res, tr) =
                                (case r_scripts of
                                   r # _ \<Rightarrow> execute_r_script E r (parameters request) (timeout request)
                                 | [] \<Rightarrow>
                                    (case py_scripts of
                                       p # _ \<Rightarrow> execute_python_script E p (parameters request)
                                                  (timeout request)
                                     | [] \<Rightarrow> run_default_cohort_analysis E))
                          in (case res of
                                Inl e \<Rightarrow> (Inl (e, Some status0), t0 @ tr)
                              | Inr results \<Rightarrow>
                                  let status1 = status0\<lparr>status := ''completed'',
                                                  completed_at := Some (utcnow_completed E),
                                                  results_available := True\<rparr>
                                  in (case io_error E Open_results of
                                        Some m \<Rightarrow> (Inl (OSError m, Some status1), t0 @ tr)
                                      | None \<Rightarrow>
                                         if json_dump_raises E results
                                         then (Inl (LibraryError (recursion_error E), Some status1),
                                               t0 @ tr @ [OpenResults])
                                         else
                                         (case io_error E Open_status_completed of
                                            Some m \<Rightarrow>
                                              (Inl (OSError m, Some status1),
                                               t0 @ tr @ [OpenResults, WriteResults results])
                                          | None \<Rightarrow>
                                              (Inr status1,
                                               t0 @ tr @ [OpenResults, WriteResults results,
                                                          OpenStatus, WriteStatus status1])))))))"

text \<open>
  \<^verbatim>\<open>execute_study\<close>: the \<^verbatim>\<open>try\<close> body, then the \<^verbatim>\<open>except Exception\<close> handler. The handler
  marks the status it finds as failed, writes it, and raises a new \<^verbatim>\<open>HTTPException\<close> with
  code 500. When \<^verbatim>\<open>status\<close> was never assigned the handler's first statement raises
  \<^verbatim>\<open>UnboundLocalError\<close>; when the write fails its \<^verbatim>\<open>OSError\<close> leaves the handler.
\<close>

definition execute_study :: "env \<Rightarrow> ExecutionRequest \<Rightarrow> ExecutionStatus io" where
  "execute_study E request =
     (case execute_study_try E request of
        (Inr st, tr) \<Rightarrow> (Inr st, tr)
      | (Inl (e, None), tr) \<Rightarrow>
          (Inl (UnboundLocalError
                  ''cannot access local variable 'status' where it is not associated with a value''),
           tr)
      | (Inl (e, Some st), tr) \<Rightarrow>
          let st' = st\<lparr>status := ''failed'',
                        error_message := Some (str_exn E e),
                        completed_at := Some (utcnow_failed E)\<rparr>
          in (case io_error E Open_status_failed of
                Some m \<Rightarrow> (Inl (OSError m), tr)
              | None \<Rightarrow>
                  (Inl (HTTPException 500 (''Execution failed: '' @ str_exn E e)),
                   tr @ [OpenStatus, WriteStatus st'])))"

section \<open>Reading the effects\<close>

text \<open>
  The status documents the endpoint itself has dumped, the result documents it has dumped,
  the commands run, what the child stored in \<^verbatim>\<open>status.json\<close>, in order.
\<close>

fun status_writes :: "effect list \<Rightarrow> ExecutionStatus list" where
  "status_writes [] = []"
| "status_writes (WriteStatus s # es) = s # status_writes es"
| "status_writes (e # es) = status_writes es"

fun results_writes :: "effect list \<Rightarrow> json list" where
  "results_writes [] = []"
| "results_writes (WriteResults v # es) = v # results_writes es"
| "results_writes (e # es) = results_writes es"

fun runs :: "effect list \<Rightarrow> string list list" where
  "runs [] = []"
| "runs (Run c # es) = c # runs es"
| "runs (e # es) = runs es"

fun child_writes :: "effect list \<Rightarrow> ExecutionStatus content list" where
  "child_writes [] = []"
| "child_writes (ChildWrote c # es) = c # child_writes es"
| "child_writes (e # es) = child_writes es"

text \<open>The text of \<^verbatim>\<open>execution.log\<close>: opening with mode \<^verbatim>\<open>"w"\<close> empties it, a write appends.\<close>

fun log_text :: "effect list \<Rightarrow> string \<Rightarrow> string" where
  "log_text [] acc = acc"
| "log_text (OpenLog # es) acc = log_text es []"
| "log_text (LogWrite s # es) acc = log_text es (acc @ s)"
| "log_text (e # es) acc = log_text es acc"

text \<open>
  What \<^verbatim>\<open>status.json\<close> and \<^verbatim>\<open>results.json\<close> hold after the effects, starting from what they
  held before (\<open>None\<close>: no such file). Opening empties the file; it holds a whole document
  again once the dump has ended; the child's writes replace \<^verbatim>\<open>status.json\<close>.
\<close>

fun status_after :: "ExecutionStatus content option \<Rightarrow> effect list \<Rightarrow> ExecutionStatus content option" where
  "status_after c [] = c"
| "status_after c (OpenStatus # es) = status_after (Some Torn) es"
| "status_after c (WriteStatus s # es) = status_after (Some (Whole s)) es"
| "status_after c (ChildWrote d # es) = status_after (Some d) es"
| "status_after c (e # es) = status_after c es"

fun results_after :: "json content option \<Rightarrow> effect list \<Rightarrow> json content option" where
  "results_after c [] = c"
| "results_after c (OpenResults # es) = results_after (Some Torn) es"
| "results_after c (WriteResults v # es) = results_after (Some (Whole v)) es"
| "results_after c (e # es) = results_after c es"

definition status_file :: "effect list \<Rightarrow> ExecutionStatus content option" where
  "status_file tr = status_after None tr"

definition results_file :: "effect list \<Rightarrow> json content option" where
  "results_file tr = results_after None tr"

text \<open>
  \<^verbatim>\<open>get_execution_status\<close> of the backend, reading the execution directory at some moment
  of the execution: \<open>before\<close> is what \<^verbatim>\<open>status.json\<close> held when the execution began (\<open>None\<close>: no
  such file), \<open>tr\<close> the effects so far. It answers 404 when the file is absent; the
  \<^verbatim>\<open>JSONDecodeError\<close> of \<^verbatim>\<open>json.load\<close>, which the function does not catch, when the file does
  not hold a whole document; else the document as a \<^verbatim>\<open>StudyStatus\<close>, which has no
  \<^verbatim>\<open>results_available\<close> field.
\<close>

definition get_execution_status ::
    "ExecutionStatus content option \<Rightarrow> effect list \<Rightarrow> exn + StudyStatus" where
  "get_execution_status before tr =
     (case status_after before tr of
        None \<Rightarrow> Inl (HTTPException 404 ''Execution not found'')
      | Some Torn \<Rightarrow> Inl (LibraryError ''JSONDecodeError'')
      | Some (Whole s) \<Rightarrow>
          Inr \<lparr>ss_study_id = study_id s,
               ss_execution_id = execution_id s,
               ss_status = status s,
               ss_created_at = created_at s,
               ss_completed_at = completed_at s,
               ss_error_message = error_message s\<rparr>)"

text \<open>The invariant of a status record; \<open>has_results\<close> says whether a whole result document exists.\<close>

definition status_invariant :: "bool \<Rightarrow> ExecutionStatus \<Rightarrow> bool" where
  "status_invariant has_results s =
     (((completed_at s \<noteq> None) = (status s = ''completed'' \<or> status s = ''failed''))
      \<and> (\<not> results_available s \<or> (status s = ''completed'' \<and> has_results))
      \<and> (error_message s = None \<or> status s = ''failed''))"

text \<open>The invariant at every status write, with the results file as it is at that write.\<close>

fun writes_invariant :: "bool \<Rightarrow> effect list \<Rightarrow> bool" where
  "writes_invariant has_results [] = True"
| "writes_invariant has_results (WriteStatus s # es) =
     (status_invariant has_results s \<and> writes_invariant has_results es)"
| "writes_invariant has_results (OpenResults # es) = writes_invariant False es"
| "writes_invariant has_results (WriteResults v # es) = writes_invariant True es"
| "writes_invariant has_results (e # es) = writes_invariant has_results es"

section \<open>Named parts of the endpoint\<close>

text \<open>The three status records the endpoint builds, and the runner its \<^verbatim>\<open>if/elif/else\<close> picks.\<close>

definition running_status :: "env \<Rightarrow> ExecutionRequest \<Rightarrow> ExecutionStatus" where
  "running_status E request =
     \<lparr>study_id = req_study_id request,
      execution_id = req_execution_id request,
      status = ''running'',
      created_at = utcnow_created E,
      completed_at = None,
      error_message = None,
      results_available = False\<rparr>"

definition completed_status :: "env \<Rightarrow> ExecutionRequest \<Rightarrow> ExecutionStatus" where
  "completed_status E request =
     (running_status E request)\<lparr>status := ''completed'',
        completed_at := Some (utcnow_completed E),
        results_available := True\<rparr>"

definition failed_status :: "env \<Rightarrow> ExecutionStatus \<Rightarrow> exn \<Rightarrow> ExecutionStatus" where
  "failed_status E st e =
     st\<lparr>status := ''failed'',
        error_message := Some (str_exn E e),
        completed_at := Some (utcnow_failed E)\<rparr>"

definition run_selected :: "env \<Rightarrow> ExecutionRequest \<Rightarrow> string list \<Rightarrow> json io" where
  "run_selected E request names =
     (case glob_ext E (req_study_id request) ''.R'' names of
        r # _ \<Rightarrow> execute_r_script E r (parameters request) (timeout request)
      | [] \<Rightarrow>
         (case glob_ext E (req_study_id request) ''.py'' names of
            p # _ \<Rightarrow> execute_python_script E p (parameters request) (timeout request)
          | [] \<Rightarrow> run_default_cohort_analysis E))"

fun is_http_error :: "exn \<Rightarrow> bool" where
  "is_http_error (HTTPException c d) = True"
| "is_http_error e = False"

text \<open>The two log headers, and the log of a script whose process completed.\<close>

definition r_log_header :: "env \<Rightarrow> string \<Rightarrow> json option \<Rightarrow> string" where
  "r_log_header E script_path params =
     ''Executing R script: '' @ script_path @ ''\<newline>'' @
     ''Parameters: '' @ json_dumps E params @ ''\<newline>\<newline>''"

definition python_log_header :: "env \<Rightarrow> string \<Rightarrow> json option \<Rightarrow> string" where
  "python_log_header E script_path params =
     ''Executing Python script: '' @ script_path @ ''\<newline>'' @
     ''Parameters: '' @ json_dumps E params @ ''\<newline>\<newline>''"

definition output_sections :: "string \<Rightarrow> string \<Rightarrow> string" where
  "output_sections out err =
     ''=== STDOUT ===\<newline>'' @ out @ ''\<newline>=== STDERR ===\<newline>'' @ err"

text \<open>The record both script runners return when stdout is not JSON.\<close>

definition text_record :: "string \<Rightarrow> json" where
  "text_record out = JObj [(''output'', JStr out), (''type'', JStr ''text'')]"

text \<open>
  What both script runners make of the standard output of a process that exited with code
  0: the \<^verbatim>\<open>try: return json.loads(result.stdout)\<close>, \<^verbatim>\<open>except: return {...}\<close> at their end.
\<close>

definition interpret_stdout :: "env \<Rightarrow> string \<Rightarrow> json" where
  "interpret_stdout E out = (case json_loads E out of Some v \<Rightarrow> v | None \<Rightarrow> text_record out)"

text \<open>The effects of a script runner up to the return of \<^verbatim>\<open>subprocess.run\<close>.\<close>

definition script_header :: "env \<Rightarrow> string \<Rightarrow> string \<Rightarrow> string \<Rightarrow> json option \<Rightarrow> effect list" where
  "script_header E label interp script_path params =
     [OpenLog,
      LogWrite (''Executing '' @ label @ '' script: '' @ script_path @ ''\<newline>''),
      LogWrite (''Parameters: '' @ json_dumps E params @ ''\<newline>\<newline>''),
      Run [interp, script_path]]
     @ map ChildWrote (child_status_writes E [interp, script_path])"

definition output_effects :: "string \<Rightarrow> string \<Rightarrow> effect list" where
  "output_effects out err =
     [LogWrite ''=== STDOUT ===\<newline>'', LogWrite out,
      LogWrite ''\<newline>=== STDERR ===\<newline>'', LogWrite err]"

text \<open>Effects that leave \<^verbatim>\<open>status.json\<close> and \<^verbatim>\<open>results.json\<close> to the endpoint: no open, no dump.\<close>

fun quiet :: "effect list \<Rightarrow> bool" where
  "quiet [] = True"
| "quiet (OpenStatus # es) = False"
| "quiet (WriteStatus s # es) = False"
| "quiet (OpenResults # es) = False"
| "quiet (WriteResults v # es) = False"
| "quiet (e # es) = quiet es"

section \<open>Example inputs\<close>

definition req1 :: ExecutionRequest where
  "req1 = \<lparr>req_study_id = ''s1'', req_execution_id = ''e1'', parameters = None, timeout = 10\<rparr>"

text \<open>
  An environment in which no file operation fails and the child leaves \<^verbatim>\<open>status.json\<close>
  alone: the study directory and the way the child process ends are given; paths are
  joined as \<^verbatim>\<open>pathlib\<close> joins a plain study identifier such as \<^verbatim>\<open>s1\<close>; the JSON parser knows
  four documents; \<^verbatim>\<open>json.dump\<close> writes up to three levels of containers; an \<^verbatim>\<open>HTTPException\<close>
  prints as code, colon, detail, as current Starlette prints it.
\<close>

definition example_env :: "string list option \<Rightarrow> run_outcome \<Rightarrow> env" where
  "example_env names outcome =
     \<lparr>utcnow_created = 100, utcnow_completed = 105, utcnow_failed = 111,
      study_dir = names,
      study_path = (\<lambda>sid n. ''/studies/'' @ sid @ ''/'' @ n),
      subprocess_run = (\<lambda>cmd t. outcome),
      child_status_writes = (\<lambda>cmd. []),
      json_loads = (\<lambda>s. if s = ''42'' then Some (JInt 42)
                         else if s = ''null'' then Some JNull
                         else if s = ''{}'' then Some (JObj [])
                         else if s = ''[[[[]]]]'' then Some (JArr [JArr [JArr [JArr []]]])
                         else None),
      json_dumps = (\<lambda>p. ''null''),
      dump_depth = 2,
      recursion_error = ''maximum recursion depth exceeded'',
      read_sql = (\<lambda>i. Inr [JObj []]),
      io_error = (\<lambda>s. None),
      http_exception_str = (\<lambda>c d. str_int c @ '': '' @ d)\<rparr>"

text \<open>
  The script, whose working directory is the execution directory, has made
  \<^verbatim>\<open>results.json\<close> a directory and exits with code 0: opening it for writing fails.
\<close>

definition blocked_env :: env where
  "blocked_env =
     (example_env (Some [''a.py'']) (Completed 0 ''{}'' []))
       \<lparr>io_error := (\<lambda>s. if s = Open_results then Some ''[Errno 21] Is a directory''
                          else None)\<rparr>"

text \<open>
  More environments built from it: no study directory; a directory that lists \<^verbatim>\<open>b.R\<close>
  before \<^verbatim>\<open>a.R\<close>; an R script and a Python script killed at the timeout after they have
  printed; a directory without scripts, where the default analysis ends a minute after the
  status was created.
\<close>

definition missing_env :: env where
  "missing_env = example_env None (Completed 0 [] [])"

definition unsorted_env :: env where
  "unsorted_env = example_env (Some [''b.R'', ''a.R'', ''c.py'']) (Completed 0 [] [])"

definition timeout_env :: env where
  "timeout_env = example_env (Some [''a.R'']) (TimeoutExpired ''partial out'' ''partial err'')"

definition python_timeout_env :: env where
  "python_timeout_env =
     example_env (Some [''notes.txt'', ''a.py'']) (TimeoutExpired ''partial out'' ''partial err'')"

definition slow_default_env :: env where
  "slow_default_env =
     (example_env (Some [''notes.txt'']) (Completed 0 [] []))\<lparr>utcnow_completed := 160\<rparr>"

text \<open>
  The script prints a document nested more deeply than \<^verbatim>\<open>json.dump\<close> can write; every file
  operation succeeds.
\<close>

definition deep_env :: env where
  "deep_env = example_env (Some [''a.py'']) (Completed 0 ''[[[[]]]]'' [])"


text \<open>The script stores a status document of its own, with state \<^verbatim>\<open>pending\<close>, and exits with code 0.\<close>

definition pending_record :: ExecutionStatus where
  "pending_record =
     \<lparr>study_id = ''s1'', execution_id = ''e1'', status = ''pending'', created_at = 100,
      completed_at = None, error_message = None, results_available = False\<rparr>"

definition pending_env :: env where
  "pending_env =
     (example_env (Some [''a.py'']) (Completed 0 ''{}'' []))
       \<lparr>child_status_writes := (\<lambda>cmd. [Whole pending_record])\<rparr>"

section \<open>Lemmas on the model\<close>

lemma store_ok_site: "store_ok E \<Longrightarrow> io_error E s = None"
  by (cases s) (simp_all add: store_ok_def all_io_sites_def)

lemma store_ok_example: "store_ok (example_env names outcome)"
  by (simp add: store_ok_def all_io_sites_def example_env_def)

lemma store_ok_status_writable: "store_ok E \<Longrightarrow> status_writable E"
  by (simp add: store_ok_def all_io_sites_def status_writable_def)


lemmas example_simps =
  example_env_def req1_def str_int_def str_nat.simps glob_ext_def endswith_def

text \<open>Reading a list of effects that is given in two parts.\<close>

lemma status_writes_append: "status_writes (xs @ ys) = status_writes xs @ status_writes ys"
  by (induction xs rule: status_writes.induct) simp_all

lemma results_writes_append: "results_writes (xs @ ys) = results_writes xs @ results_writes ys"
  by (induction xs rule: results_writes.induct) simp_all

lemma runs_append: "runs (xs @ ys) = runs xs @ runs ys"
  by (induction xs rule: runs.induct) simp_all

lemma child_writes_append: "child_writes (xs @ ys) = child_writes xs @ child_writes ys"
  by (induction xs rule: child_writes.induct) simp_all

lemma quiet_append: "quiet (xs @ ys) = (quiet xs \<and> quiet ys)"
  by (induction xs rule: quiet.induct) simp_all

lemma log_text_append: "log_text (xs @ ys) acc = log_text ys (log_text xs acc)"
  by (induction xs acc rule: log_text.induct) simp_all

lemma status_after_append: "status_after c (xs @ ys) = status_after (status_after c xs) ys"
  by (induction c xs rule: status_after.induct) simp_all

lemma results_after_append: "results_after c (xs @ ys) = results_after (results_after c xs) ys"
  by (induction c xs rule: results_after.induct) simp_all

text \<open>What the child stores is no write of the endpoint, no run and no log line.\<close>

lemma child_effects [simp]:
  "status_writes (map ChildWrote cs) = []"
  "results_writes (map ChildWrote cs) = []"
  "runs (map ChildWrote cs) = []"
  "quiet (map ChildWrote cs)"
  "log_text (map ChildWrote cs) acc = acc"
  "results_after r (map ChildWrote cs) = r"
  "child_writes (map ChildWrote cs) = cs"
  by (induction cs arbitrary: acc r) simp_all

lemma quiet_reads:
  assumes "quiet tr"
  shows "status_writes tr = []" and "results_writes tr = []" and "results_after c tr = c"
    and "writes_invariant b (tr @ ys) = writes_invariant b ys"
  using assms
  by (induction tr rule: quiet.induct) simp_all

lemma script_header_reads [simp]:
  "quiet (script_header E label interp p ps)"
  "runs (script_header E label interp p ps) = [[interp, p]]"
  "child_writes (script_header E label interp p ps) = child_status_writes E [interp, p]"
  "log_text (script_header E label interp p ps) acc =
     ''Executing '' @ label @ '' script: '' @ p @ ''\<newline>'' @
     ''Parameters: '' @ json_dumps E ps @ ''\<newline>\<newline>''"
  by (simp_all add: script_header_def quiet_append runs_append child_writes_append
      log_text_append)

lemma output_effects_reads [simp]:
  "quiet (output_effects out err)"
  "runs (output_effects out err) = []"
  "child_writes (output_effects out err) = []"
  "log_text (output_effects out err) acc = acc @ output_sections out err"
  by (simp_all add: output_effects_def output_sections_def)

text \<open>The script runners, outcome by outcome.\<close>

lemma r_script_timeout:
  assumes "io_error E Open_log = None"
    and "subprocess_run E [''Rscript'', r] t = TimeoutExpired out err"
  shows "execute_r_script E r ps t =
      (Inl (Exception (''R script execution timed out after '' @ str_int t @ '' seconds'')),
       script_header E ''R'' ''Rscript'' r ps)"
  using assms by (simp add: execute_r_script_def script_header_def)

lemma python_script_timeout:
  assumes "io_error E Open_log = None"
    and "subprocess_run E [''python3'', p] t = TimeoutExpired out err"
  shows "execute_python_script E p ps t =
      (Inl (Exception (''Python script execution timed out after '' @ str_int t
              @ '' seconds'')),
       script_header E ''Python'' ''python3'' p ps)"
  using assms by (simp add: execute_python_script_def script_header_def)

lemma r_script_zero_exit:
  assumes "io_error E Open_log = None"
    and "subprocess_run E [''Rscript'', r] t = Completed 0 out err"
  shows "execute_r_script E r ps t =
      (Inr (interpret_stdout E out),
       script_header E ''R'' ''Rscript'' r ps @ output_effects out err)"
  using assms
  by (cases "json_loads E out")
     (simp_all add: execute_r_script_def interpret_stdout_def text_record_def
        script_header_def output_effects_def)

lemma python_script_zero_exit:
  assumes "io_error E Open_log = None"
    and "subprocess_run E [''python3'', p] t = Completed 0 out err"
  shows "execute_python_script E p ps t =
      (Inr (interpret_stdout E out),
       script_header E ''Python'' ''python3'' p ps @ output_effects out err)"
  using assms
  by (cases "json_loads E out")
     (simp_all add: execute_python_script_def interpret_stdout_def text_record_def
        script_header_def output_effects_def)

lemma r_script_nonzero_exit:
  assumes "io_error E Open_log = None"
    and "subprocess_run E [''Rscript'', r] t = Completed rc out err" and "rc \<noteq> 0"
  shows "execute_r_script E r ps t =
      (Inl (Exception (''R script failed with code '' @ str_int rc @ '': '' @ err)),
       script_header E ''R'' ''Rscript'' r ps @ output_effects out err)"
  using assms by (simp add: execute_r_script_def script_header_def output_effects_def)

lemma python_script_nonzero_exit:
  assumes "io_error E Open_log = None"
    and "subprocess_run E [''python3'', p] t = Completed rc out err" and "rc \<noteq> 0"
  shows "execute_python_script E p ps t =
      (Inl (Exception (''Python script failed with code '' @ str_int rc @ '': '' @ err)),
       script_header E ''Python'' ''python3'' p ps @ output_effects out err)"
  using assms by (simp add: execute_python_script_def script_header_def output_effects_def)

text \<open>No runner opens or writes a status or a result document.\<close>

lemma r_script_quiet: "quiet (snd (execute_r_script E p ps t))"
  by (simp add: execute_r_script_def Let_def quiet_append
      split: option.split run_outcome.split)

lemma python_script_quiet: "quiet (snd (execute_python_script E p ps t))"
  by (simp add: execute_python_script_def Let_def quiet_append
      split: option.split run_outcome.split)

lemma default_queries_quiet:
  "quiet (snd (default_queries E)) \<and> runs (snd (default_queries E)) = [] \<and>
   child_writes (snd (default_queries E)) = []"
  by (simp add: default_queries_def Let_def split: option.split sum.split list.split)

lemma default_quiet:
  "quiet (snd (run_default_cohort_analysis E)) \<and>
   runs (snd (run_default_cohort_analysis E)) = [] \<and>
   child_writes (snd (run_default_cohort_analysis E)) = []"
proof (cases "default_queries E")
  case (Pair res tr)
  with default_queries_quiet [of E] show ?thesis
    by (cases res) (simp_all add: run_default_cohort_analysis_def)
qed

lemma run_selected_quiet: "quiet (snd (run_selected E request names))"
  by (simp add: run_selected_def r_script_quiet python_script_quiet default_quiet
      split: list.split)

lemma run_selected_trace:
  assumes "run_selected E request names = (res, tr)"
  shows "quiet tr" and "status_writes tr = []" and "results_writes tr = []"
    and "results_after c tr = c"
proof -
  from run_selected_quiet [of E request names] assms show "quiet tr"
    by simp
  then show "status_writes tr = []" and "results_writes tr = []" and "results_after c tr = c"
    by (simp_all add: quiet_reads)
qed

lemma run_selected_r:
  "glob_ext E (req_study_id request) ''.R'' names = r # rs \<Longrightarrow>
   run_selected E request names = execute_r_script E r (parameters request) (timeout request)"
  by (simp add: run_selected_def)

lemma run_selected_python:
  "glob_ext E (req_study_id request) ''.R'' names = [] \<Longrightarrow>
   glob_ext E (req_study_id request) ''.py'' names = p # ps \<Longrightarrow>
   run_selected E request names =
     execute_python_script E p (parameters request) (timeout request)"
  by (simp add: run_selected_def)

lemma run_selected_default:
  "glob_ext E (req_study_id request) ''.R'' names = [] \<Longrightarrow>
   glob_ext E (req_study_id request) ''.py'' names = [] \<Longrightarrow>
   run_selected E request names = run_default_cohort_analysis E"
  by (simp add: run_selected_def)

text \<open>The endpoint when the status document can be written.\<close>

lemma execute_study_status_writable:
  assumes "status_writable E"
  shows "execute_study E request =
     (case study_dir E of
        None \<Rightarrow>
          (Inl (HTTPException 500
                  (''Execution failed: '' @ http_exception_str E 404 ''Study not found'')),
           [Mkdir, OpenStatus, WriteStatus (running_status E request), OpenStatus,
            WriteStatus (failed_status E (running_status E request)
                           (HTTPException 404 ''Study not found''))])
      | Some names \<Rightarrow>
          (case run_selected E request names of
             (Inl e, tr) \<Rightarrow>
               (Inl (HTTPException 500 (''Execution failed: '' @ str_exn E e)),
                [Mkdir, OpenStatus, WriteStatus (running_status E request)] @ tr @
                [OpenStatus, WriteStatus (failed_status E (running_status E request) e)])
           | (Inr v, tr) \<Rightarrow>
               (case io_error E Open_results of
                  Some m \<Rightarrow>
                    (Inl (HTTPException 500 (''Execution failed: '' @ m)),
                     [Mkdir, OpenStatus, WriteStatus (running_status E request)] @ tr @
                     [OpenStatus,
                      WriteStatus (failed_status E (completed_status E request) (OSError m))])
                | None \<Rightarrow>
                    if json_dump_raises E v
                    then (Inl (HTTPException 500 (''Execution failed: '' @ recursion_error E)),
                          [Mkdir, OpenStatus, WriteStatus (running_status E request)] @ tr @
                          [OpenResults, OpenStatus,
                           WriteStatus (failed_status E (completed_status E request)
                                          (LibraryError (recursion_error E)))])
                    else (Inr (completed_status E request),
                          [Mkdir, OpenStatus, WriteStatus (running_status E request)] @ tr @
                          [OpenResults, WriteResults v, OpenStatus,
                           WriteStatus (completed_status E request)]))))"
  using assms
  by (simp add: execute_study_def execute_study_try_def status_writable_def
      running_status_def completed_status_def failed_status_def run_selected_def Let_def
      split: option.split prod.split sum.split list.split)

text \<open>
  The five ways the endpoint ends when the status document can be written: the study
  directory is missing, the selected runner raises, the result document cannot be opened,
  the dump of the result raises, the execution completes.
\<close>

lemma execute_study_status_cases
    [consumes 1, case_names missing failed blocked torn completed]:
  assumes "status_writable E"
  obtains
    "study_dir E = None"
    "execute_study E request =
       (Inl (HTTPException 500
               (''Execution failed: '' @ http_exception_str E 404 ''Study not found'')),
        [Mkdir, OpenStatus, WriteStatus (running_status E request), OpenStatus,
         WriteStatus (failed_status E (running_status E request)
                        (HTTPException 404 ''Study not found''))])"
  | names e tr where
    "study_dir E = Some names"
    "run_selected E request names = (Inl e, tr)"
    "quiet tr"
    "execute_study E request =
       (Inl (HTTPException 500 (''Execution failed: '' @ str_exn E e)),
        [Mkdir, OpenStatus, WriteStatus (running_status E request)] @ tr @
        [OpenStatus, WriteStatus (failed_status E (running_status E request) e)])"
  | names v tr m where
    "study_dir E = Some names"
    "run_selected E request names = (Inr v, tr)"
    "quiet tr"
    "io_error E Open_results = Some m"
    "execute_study E request =
       (Inl (HTTPException 500 (''Execution failed: '' @ m)),
        [Mkdir, OpenStatus, WriteStatus (running_status E request)] @ tr @
        [OpenStatus, WriteStatus (failed_status E (completed_status E request) (OSError m))])"
  | names v tr where
    "study_dir E = Some names"
    "run_selected E request names = (Inr v, tr)"
    "quiet tr"
    "io_error E Open_results = None"
    "json_dump_raises E v"
    "execute_study E request =
       (Inl (HTTPException 500 (''Execution failed: '' @ recursion_error E)),
        [Mkdir, OpenStatus, WriteStatus (running_status E request)] @ tr @
        [OpenResults, OpenStatus,
         WriteStatus (failed_status E (completed_status E request)
                        (LibraryError (recursion_error E)))])"
  | names v tr where
    "study_dir E = Some names"
    "run_selected E request names = (Inr v, tr)"
    "quiet tr"
    "io_error E Open_results = None"
    "\<not> json_dump_raises E v"
    "execute_study E request =
       (Inr (completed_status E request),
        [Mkdir, OpenStatus, WriteStatus (running_status E request)] @ tr @
        [OpenResults, WriteResults v, OpenStatus, WriteStatus (completed_status E request)])"
proof (cases "study_dir E")
  case None
  with assms that(1) show ?thesis
    by (simp add: execute_study_status_writable)
next
  case dir: (Some names)
  obtain res tr where rs: "run_selected E request names = (res, tr)"
    by (cases "run_selected E request names") simp
  then have q: "quiet tr"
    by (rule run_selected_trace)
  show ?thesis
  proof (cases res)
    case (Inl e)
    with assms dir rs q that(2) show ?thesis
      by (simp add: execute_study_status_writable)
  next
    case (Inr v)
    show ?thesis
    proof (cases "io_error E Open_results")
      case (Some m)
      with assms dir rs q Inr that(3) show ?thesis
        by (simp add: execute_study_status_writable)
    next
      case None
      show ?thesis
      proof (cases "json_dump_raises E v")
        case True
        with assms dir rs q Inr None that(4) show ?thesis
          by (simp add: execute_study_status_writable)
      next
        case False
        with assms dir rs q Inr None that(5) show ?thesis
          by (simp add: execute_study_status_writable)
      qed
    qed
  qed
qed

text \<open>The same when no file operation fails at all.\<close>

lemma execute_study_store_ok:
  assumes "store_ok E"
  shows "execute_study E request =
     (case study_dir E of
        None \<Rightarrow>
          (Inl (HTTPException 500
                  (''Execution failed: '' @ http_exception_str E 404 ''Study not found'')),
           [Mkdir, OpenStatus, WriteStatus (running_status E request), OpenStatus,
            WriteStatus (failed_status E (running_status E request)
                           (HTTPException 404 ''Study not found''))])
      | Some names \<Rightarrow>
          (case run_selected E request names of
             (Inl e, tr) \<Rightarrow>
               (Inl (HTTPException 500 (''Execution failed: '' @ str_exn E e)),
                [Mkdir, OpenStatus, WriteStatus (running_status E request)] @ tr @
                [OpenStatus, WriteStatus (failed_status E (running_status E request) e)])
           | (Inr v, tr) \<Rightarrow>
               if json_dump_raises E v
               then (Inl (HTTPException 500 (''Execution failed: '' @ recursion_error E)),
                     [Mkdir, OpenStatus, WriteStatus (running_status E request)] @ tr @
                     [OpenResults, OpenStatus,
                      WriteStatus (failed_status E (completed_status E request)
                                     (LibraryError (recursion_error E)))])
               else (Inr (completed_status E request),
                     [Mkdir, OpenStatus, WriteStatus (running_status E request)] @ tr @
                     [OpenResults, WriteResults v, OpenStatus,
                      WriteStatus (completed_status E request)])))"
  using store_ok_site [OF assms, of Open_results]
  by (simp add: execute_study_status_writable [OF store_ok_status_writable [OF assms]]
      split: option.split prod.split sum.split)

lemma status_after_write [simp]:
  "status_after c (xs @ [WriteStatus s]) = Some (Whole s)"
  "status_after c (xs @ ys @ [WriteStatus s]) = Some (Whole s)"
  "status_after c (xs @ ys @ zs @ [WriteStatus s]) = Some (Whole s)"
  by (simp_all add: status_after_append)

text \<open>
  When no file operation fails and the result can be dumped, every status write satisfies
  the record invariant.
\<close>

lemma status_invariant_when_written:
  assumes "store_ok E"
    and "\<And>names v tr. study_dir E = Some names \<Longrightarrow>
           run_selected E request names = (Inr v, tr) \<Longrightarrow> \<not> json_dump_raises E v"
  shows "writes_invariant False (snd (execute_study E request))"
  using store_ok_status_writable [OF assms(1)]
proof (cases rule: execute_study_status_cases [where request = request])
  case missing
  then show ?thesis
    by (simp add: status_invariant_def running_status_def failed_status_def)
next
  case (failed names e tr)
  then show ?thesis
    by (simp add: quiet_reads status_invariant_def running_status_def failed_status_def)
next
  case (blocked names v tr m)
  with store_ok_site [OF assms(1), of Open_results] show ?thesis
    by simp
next
  case (torn names v tr)
  with assms(2) show ?thesis
    by blast
next
  case (completed names v tr)
  then show ?thesis
    by (simp add: quiet_reads status_invariant_def running_status_def completed_status_def)
qed

text \<open>\<^verbatim>\<open>json.dump\<close> never fails on a scalar.\<close>

lemma scalar_dumps: "is_scalar v \<Longrightarrow> \<not> json_dump_raises E v"
  by (cases v) (simp_all add: json_dump_raises_def)

lemmas status_simps =
  status_file_def results_file_def running_status_def failed_status_def completed_status_def

lemmas log_simps = r_log_header_def python_log_header_def output_sections_def

lemmas read_simps =
  status_after_append results_after_append status_writes_append results_writes_append
  runs_append log_text_append quiet_reads

text \<open>The first match of a glob is the first matching entry of the listing.\<close>

lemma glob_ext_find:
  "(case glob_ext E sid ext names of [] \<Rightarrow> g | r # rs \<Rightarrow> f r) =
   (case find (\<lambda>n. endswith n ext) names of
      None \<Rightarrow> g
    | Some n \<Rightarrow> f (study_path E sid n))"
  by (induction names) (simp_all add: glob_ext_def)

lemma r_script_runs:
  "io_error E Open_log = None \<Longrightarrow> runs (snd (execute_r_script E p ps t)) = [[''Rscript'', p]]"
  by (simp add: execute_r_script_def Let_def runs_append
      split: run_outcome.split option.split)

lemma python_script_runs:
  "io_error E Open_log = None \<Longrightarrow>
   runs (snd (execute_python_script E p ps t)) = [[''python3'', p]]"
  by (simp add: execute_python_script_def Let_def runs_append
      split: run_outcome.split option.split)

text \<open>Once the first status write is done, the effects of the selected runner follow it.\<close>

lemma execute_study_effects:
  assumes "io_error E Mkdir_exec_dir = None" and "io_error E Open_status_running = None"
    and "study_dir E = Some names"
  shows "\<exists>post. snd (execute_study E request) =
           [Mkdir, OpenStatus, WriteStatus (running_status E request)] @
           snd (run_selected E request names) @ post \<and> runs post = []"
proof -
  obtain res tr where rs: "run_selected E request names = (res, tr)"
    by (cases "run_selected E request names") simp
  from assms show ?thesis
    unfolding execute_study_def execute_study_try_def Let_def
    apply (fold run_selected_def)
    apply (auto simp: rs running_status_def split: option.splits sum.splits)
    done
qed

text \<open>The default analysis takes no timeout.\<close>

lemma default_ignores_timeout:
  assumes "glob_ext E (req_study_id request) ''.R'' names = []"
    and "glob_ext E (req_study_id request) ''.py'' names = []"
    and "study_dir E = Some names"
  shows "execute_study E (request\<lparr>timeout := t\<rparr>) = execute_study E request"
proof -
  have "execute_study_try E (request\<lparr>timeout := t\<rparr>) = execute_study_try E request"
    using assms
    by (cases "io_error E Mkdir_exec_dir"; cases "io_error E Open_status_running")
       (simp_all add: execute_study_try_def Let_def)
  then show ?thesis
    by (simp add: execute_study_def)
qed


lemma written_records:
  assumes "s \<in> set (status_writes (snd (execute_study E request)))"
  shows "study_id s = req_study_id request \<and> execution_id s = req_execution_id request \<and>
         created_at s = utcnow_created E \<and>
         (status s = ''running'' \<or> status s = ''completed'' \<or> status s = ''failed'')"
proof (cases "study_dir E")
  case None
  with assms show ?thesis
    by (auto simp: execute_study_def execute_study_try_def Let_def split: option.splits)
next
  case (Some names)
  obtain res tr where rs: "run_selected E request names = (res, tr)"
    by (cases "run_selected E request names") simp
  note nw = run_selected_trace(2) [OF rs]
  from assms show ?thesis
    unfolding execute_study_def execute_study_try_def Let_def
    apply (fold run_selected_def)
    apply (auto simp: Some rs nw status_writes_append split: option.splits sum.splits
        if_splits)
    done
qed


lemma first_write_running:
  assumes "io_error E Open_status_running = None"
  shows "case status_writes (snd (execute_study E request)) of
           [] \<Rightarrow> io_error E Mkdir_exec_dir \<noteq> None
         | s # ss \<Rightarrow> s = running_status E request"
proof (cases "study_dir E")
  case None
  with assms show ?thesis
    by (auto simp: execute_study_def execute_study_try_def Let_def running_status_def
        split: option.splits)
next
  case (Some names)
  obtain res tr where rs: "run_selected E request names = (res, tr)"
    by (cases "run_selected E request names") simp
  note nw = run_selected_trace(2) [OF rs]
  from assms show ?thesis
    unfolding execute_study_def execute_study_try_def Let_def
    apply (fold run_selected_def)
    apply (auto simp: Some rs nw status_writes_append running_status_def
        split: option.splits sum.splits)
    done
qed

text \<open>
  What a reader of \<^verbatim>\<open>status.json\<close> can find while the endpoint runs, when the child leaves
  the file alone: what was there before, an emptied file, or a record the endpoint wrote.
\<close>

lemma status_after_prefix:
  assumes "child_writes tr = []"
  shows "status_after c (take n tr) = c \<or> status_after c (take n tr) = Some Torn \<or>
         (\<exists>s \<in> set (status_writes tr). status_after c (take n tr) = Some (Whole s))"
  using assms
proof (induction tr arbitrary: c n)
  case Nil
  show ?case by simp
next
  case (Cons x xs)
  show ?case
  proof (cases n)
    case 0
    then show ?thesis by simp
  next
    case (Suc m)
    from Cons.prems have quiet_rest: "child_writes xs = []"
      by (cases x) simp_all
    show ?thesis
    proof (cases x)
      case OpenStatus
      with Suc Cons.IH [OF quiet_rest, of "Some Torn" m] show ?thesis by auto
    next
      case (WriteStatus s)
      with Suc Cons.IH [OF quiet_rest, of "Some (Whole s)" m] show ?thesis by auto
    next
      case (ChildWrote d)
      with Cons.prems show ?thesis by simp
    qed (use Suc Cons.IH [OF quiet_rest, of c m] in auto)
  qed
qed

text \<open>
  A second input on which a failed record keeps \<^verbatim>\<open>results_available\<close>: in \<open>deep_env\<close>
  every file operation succeeds and \<^verbatim>\<open>json.dump\<close> raises on the result after
  \<^verbatim>\<open>results.json\<close> was opened.
\<close>

lemma torn_result_keeps_results_available:
  "status_file (snd (execute_study deep_env req1)) =
     Some (Whole \<lparr>study_id = ''s1'', execution_id = ''e1'', status = ''failed'',
            created_at = 100, completed_at = Some 111,
            error_message = Some ''maximum recursion depth exceeded'',
            results_available = True\<rparr>) \<and>
   results_file (snd (execute_study deep_env req1)) = Some Torn"
  by (simp add: deep_env_def execute_study_def execute_study_try_def example_simps
      execute_python_script_def status_file_def results_file_def json_dump_raises_def
      status_after_append results_after_append Let_def)

section \<open>Claims\<close>

text \<open>
  C1, as the specification states it, fails: a failure is not turned into a returned
  status. In \<open>missing_env\<close> no file operation fails and the study directory is absent; the
  call ends with a raised \<^verbatim>\<open>HTTPException\<close>, not with a status.
\<close>

theorem failure_escapes_as_raised_error:
  "store_ok missing_env \<and>
   fst (execute_study missing_env req1) =
     Inl (HTTPException 500 ''Execution failed: 404: Study not found'')"
  by (simp add: missing_env_def store_ok_example execute_study_store_ok)
     (simp add: example_simps)

text \<open>
  C1, amended: for every request, when the status document can be written,
  \<^verbatim>\<open>execute_study\<close> either returns a status whose state is \<^verbatim>\<open>completed\<close>, which is also the
  record last persisted, or, for every kind of failure, persists a terminal \<^verbatim>\<open>failed\<close>
  record carrying an error message and then raises an HTTP error to its caller. It never
  returns a failed status.
\<close>

theorem returns_completed_or_persists_failed_and_raises:
  assumes "status_writable E"
  shows "case execute_study E request of
           (Inr st, tr) \<Rightarrow> status st = ''completed'' \<and> status_file tr = Some (Whole st)
         | (Inl x, tr) \<Rightarrow>
             is_http_error x \<and>
             (\<exists>st. status_file tr = Some (Whole st) \<and> status st = ''failed'' \<and>
                   error_message st \<noteq> None)"
  using assms
proof (cases rule: execute_study_status_cases [where request = request])
  case missing
  then show ?thesis
    by (simp add: status_file_def failed_status_def)
next
  case (failed names e tr)
  then show ?thesis
    by (simp add: status_file_def status_after_append failed_status_def)
next
  case (blocked names v tr m)
  then show ?thesis
    by (simp add: status_file_def status_after_append failed_status_def)
next
  case (torn names v tr)
  then show ?thesis
    by (simp add: status_file_def status_after_append failed_status_def)
next
  case (completed names v tr)
  then show ?thesis
    by (simp add: status_file_def status_after_append completed_status_def)
qed

theorem returns_completed_or_persists_failed_and_raises_witness:
  "status_writable missing_env \<and>
   (case execute_study missing_env req1 of
      (Inr st, tr) \<Rightarrow> status st = ''completed'' \<and> status_file tr = Some (Whole st)
    | (Inl x, tr) \<Rightarrow>
        is_http_error x \<and>
        (\<exists>st. status_file tr = Some (Whole st) \<and> status st = ''failed'' \<and>
              error_message st \<noteq> None))"
proof -
  have ok: "status_writable missing_env"
    by (simp add: missing_env_def store_ok_example store_ok_status_writable)
  from returns_completed_or_persists_failed_and_raises [OF ok, of req1] ok
  show ?thesis by simp
qed

text \<open>
  C2, as the specification states it, fails: when the study directory is looked up, the
  status record with state \<^verbatim>\<open>running\<close> has already been written. These are all the
  effects of the call in \<open>missing_env\<close>, in order.
\<close>

theorem running_persisted_before_study_lookup:
  "snd (execute_study missing_env req1) =
     [Mkdir, OpenStatus,
      WriteStatus \<lparr>study_id = ''s1'', execution_id = ''e1'', status = ''running'',
                   created_at = 100, completed_at = None, error_message = None,
                   results_available = False\<rparr>,
      OpenStatus,
      WriteStatus \<lparr>study_id = ''s1'', execution_id = ''e1'', status = ''failed'',
                   created_at = 100, completed_at = Some 111,
                   error_message = Some ''404: Study not found'',
                   results_available = False\<rparr>]"
  by (simp add: missing_env_def store_ok_example execute_study_store_ok)
     (simp add: example_simps running_status_def failed_status_def)

text \<open>
  C2, amended: for every request whose study directory does not exist, no child process
  is started, no result document is written and the call raises instead of returning a
  status; when the status document can be written, it is written with state
  \<^verbatim>\<open>running\<close> before the directory is looked up, then overwritten with a \<^verbatim>\<open>failed\<close>
  record, and what the call raises is an HTTP error.
\<close>

theorem missing_study_runs_nothing:
  assumes "study_dir E = None"
  shows "runs (snd (execute_study E request)) = [] \<and>
         results_writes (snd (execute_study E request)) = [] \<and>
         (\<exists>x. fst (execute_study E request) = Inl x) \<and>
         (status_writable E \<longrightarrow>
            (\<exists>x. fst (execute_study E request) = Inl x \<and> is_http_error x) \<and>
            snd (execute_study E request) =
              [Mkdir, OpenStatus, WriteStatus (running_status E request), OpenStatus,
               WriteStatus (failed_status E (running_status E request)
                              (HTTPException 404 ''Study not found''))])"
proof -
  have "runs (snd (execute_study E request)) = [] \<and>
        results_writes (snd (execute_study E request)) = [] \<and>
        (\<exists>x. fst (execute_study E request) = Inl x)"
    using assms
    by (simp add: execute_study_def execute_study_try_def Let_def split: option.split)
  moreover have "status_writable E \<Longrightarrow>
      (\<exists>x. fst (execute_study E request) = Inl x \<and> is_http_error x) \<and>
      snd (execute_study E request) =
        [Mkdir, OpenStatus, WriteStatus (running_status E request), OpenStatus,
         WriteStatus (failed_status E (running_status E request)
                        (HTTPException 404 ''Study not found''))]"
    using assms by (simp add: execute_study_status_writable)
  ultimately show ?thesis by blast
qed

theorem missing_study_runs_nothing_witness:
  "study_dir missing_env = None \<and> status_writable missing_env \<and>
   runs (snd (execute_study missing_env req1)) = [] \<and>
   results_writes (snd (execute_study missing_env req1)) = [] \<and>
   (\<exists>x. fst (execute_study missing_env req1) = Inl x) \<and>
   map status (status_writes (snd (execute_study missing_env req1))) = [''running'', ''failed'']"
proof -
  have none: "study_dir missing_env = None"
    by (simp add: missing_env_def example_env_def)
  have ok: "status_writable missing_env"
    by (simp add: missing_env_def store_ok_example store_ok_status_writable)
  from missing_study_runs_nothing [OF none, of req1] none ok
  show ?thesis
    by (simp add: running_status_def failed_status_def)
qed

text \<open>
  C3: the code breaks the invariant. In \<open>blocked_env\<close> the Python script exits with code 0
  and \<^verbatim>\<open>results.json\<close> cannot be opened for writing. \<^verbatim>\<open>results_available\<close> was set before
  the write was tried and the handler does not reset it: the record persisted last has
  state \<^verbatim>\<open>failed\<close> and \<^verbatim>\<open>results_available\<close> true, and there is no result document.
\<close>

theorem failed_record_keeps_results_available:
  "status_file (snd (execute_study blocked_env req1)) =
     Some (Whole \<lparr>study_id = ''s1'', execution_id = ''e1'', status = ''failed'',
            created_at = 100, completed_at = Some 111,
            error_message = Some ''[Errno 21] Is a directory'',
            results_available = True\<rparr>) \<and>
   results_file (snd (execute_study blocked_env req1)) = None"
  by (simp add: blocked_env_def execute_study_def execute_study_try_def example_simps
      execute_python_script_def status_file_def results_file_def Let_def)

text \<open>
  C4, as the specification states it, fails: the script run is the first one the directory
  enumeration lists, not the first in lexicographic order. In \<open>unsorted_env\<close> the directory
  lists \<^verbatim>\<open>b.R\<close>, \<^verbatim>\<open>a.R\<close>, \<^verbatim>\<open>c.py\<close>, and \<^verbatim>\<open>b.R\<close> is run.
\<close>

theorem first_listed_script_counterexample:
  "study_dir unsorted_env = Some [''b.R'', ''a.R'', ''c.py''] \<and>
   runs (snd (execute_study unsorted_env req1)) = [[''Rscript'', ''/studies/s1/b.R'']]"
  by (simp add: unsorted_env_def store_ok_example execute_study_store_ok)
     (simp add: example_simps run_selected_def execute_r_script_def)

text \<open>
  C4, amended: when the study directory exists and the execution directory, the first
  status write and the log can be opened, the commands run are determined by the directory
  listing in strict priority. If some entry name ends in \<^verbatim>\<open>.R\<close>, exactly one command is run,
  \<^verbatim>\<open>Rscript\<close> on the path of the first such entry in the order of the directory enumeration;
  else if some entry name ends in \<^verbatim>\<open>.py\<close>, exactly one command is run, \<^verbatim>\<open>python3\<close> on the path
  of the first such entry in that order; else no command is run and the effects of the
  default analysis follow the first status write. In particular a study with both an R
  file and a Python file has its R file run. The path is the one \<^verbatim>\<open>pathlib\<close> joins from
  \<^verbatim>\<open>/studies\<close>, the study identifier and the entry name.
\<close>

theorem first_listed_script_is_run:
  assumes "can_start E" and "study_dir E = Some names"
  shows "runs (snd (execute_study E request)) =
           (case find (\<lambda>n. endswith n ''.R'') names of
              Some n \<Rightarrow> [[''Rscript'', study_path E (req_study_id request) n]]
            | None \<Rightarrow>
               (case find (\<lambda>n. endswith n ''.py'') names of
                  Some n \<Rightarrow> [[''python3'', study_path E (req_study_id request) n]]
                | None \<Rightarrow> []))
         \<and> (find (\<lambda>n. endswith n ''.R'') names = None \<longrightarrow>
            find (\<lambda>n. endswith n ''.py'') names = None \<longrightarrow>
            (\<exists>post. snd (execute_study E request) =
               [Mkdir, OpenStatus, WriteStatus (running_status E request)] @
               snd (run_default_cohort_analysis E) @ post))"
proof -
  from assms(1) have io: "io_error E Mkdir_exec_dir = None"
    "io_error E Open_status_running = None" "io_error E Open_log = None"
    by (simp_all add: can_start_def)
  from execute_study_effects [OF io(1) io(2) assms(2), of request]
  obtain post where tr: "snd (execute_study E request) =
      [Mkdir, OpenStatus, WriteStatus (running_status E request)] @
      snd (run_selected E request names) @ post" and post: "runs post = []"
    by blast
  have sel: "run_selected E request names =
      (case find (\<lambda>n. endswith n ''.R'') names of
         Some n \<Rightarrow> execute_r_script E (study_path E (req_study_id request) n)
                     (parameters request) (timeout request)
       | None \<Rightarrow>
          (case find (\<lambda>n. endswith n ''.py'') names of
             Some n \<Rightarrow> execute_python_script E (study_path E (req_study_id request) n)
                         (parameters request) (timeout request)
           | None \<Rightarrow> run_default_cohort_analysis E))"
    by (simp add: run_selected_def glob_ext_find cong: option.case_cong)
  have "runs (snd (execute_study E request)) = runs (snd (run_selected E request names))"
    by (simp add: tr post runs_append)
  also have "\<dots> =
           (case find (\<lambda>n. endswith n ''.R'') names of
              Some n \<Rightarrow> [[''Rscript'', study_path E (req_study_id request) n]]
            | None \<Rightarrow>
               (case find (\<lambda>n. endswith n ''.py'') names of
                  Some n \<Rightarrow> [[''python3'', study_path E (req_study_id request) n]]
                | None \<Rightarrow> []))"
    by (simp add: sel r_script_runs [OF io(3)] python_script_runs [OF io(3)]
        default_quiet split: option.split)
  finally have first: "runs (snd (execute_study E request)) =
           (case find (\<lambda>n. endswith n ''.R'') names of
              Some n \<Rightarrow> [[''Rscript'', study_path E (req_study_id request) n]]
            | None \<Rightarrow>
               (case find (\<lambda>n. endswith n ''.py'') names of
                  Some n \<Rightarrow> [[''python3'', study_path E (req_study_id request) n]]
                | None \<Rightarrow> []))" .
  have "find (\<lambda>n. endswith n ''.R'') names = None \<Longrightarrow>
        find (\<lambda>n. endswith n ''.py'') names = None \<Longrightarrow>
        \<exists>post. snd (execute_study E request) =
               [Mkdir, OpenStatus, WriteStatus (running_status E request)] @
               snd (run_default_cohort_analysis E) @ post"
    using tr by (simp add: sel)
  with first show ?thesis by blast
qed

theorem first_listed_script_is_run_witness:
  "can_start unsorted_env \<and> study_dir unsorted_env = Some [''b.R'', ''a.R'', ''c.py''] \<and>
   runs (snd (execute_study unsorted_env req1)) = [[''Rscript'', ''/studies/s1/b.R'']] \<and>
   can_start python_timeout_env \<and>
   study_dir python_timeout_env = Some [''notes.txt'', ''a.py''] \<and>
   runs (snd (execute_study python_timeout_env req1)) = [[''python3'', ''/studies/s1/a.py'']] \<and>
   can_start slow_default_env \<and> study_dir slow_default_env = Some [''notes.txt''] \<and>
   runs (snd (execute_study slow_default_env req1)) = [] \<and>
   take 2 (drop 3 (snd (execute_study slow_default_env req1))) =
     [OpenLog, LogWrite ''Running default cohort analysis\<newline>\<newline>'']"
proof -
  have ok: "can_start unsorted_env" "can_start python_timeout_env" "can_start slow_default_env"
    by (simp_all add: unsorted_env_def python_timeout_env_def slow_default_env_def
        can_start_def example_env_def)
  have dir: "study_dir unsorted_env = Some [''b.R'', ''a.R'', ''c.py'']"
    "study_dir python_timeout_env = Some [''notes.txt'', ''a.py'']"
    "study_dir slow_default_env = Some [''notes.txt'']"
    by (simp_all add: unsorted_env_def python_timeout_env_def slow_default_env_def
        example_env_def)
  have path: "study_path unsorted_env = (\<lambda>sid n. ''/studies/'' @ sid @ ''/'' @ n)"
    "study_path python_timeout_env = (\<lambda>sid n. ''/studies/'' @ sid @ ''/'' @ n)"
    by (simp_all add: unsorted_env_def python_timeout_env_def example_env_def)
  have dflt: "snd (run_default_cohort_analysis slow_default_env) =
      [OpenLog, LogWrite ''Running default cohort analysis\<newline>\<newline>'',
       LogWrite ''Demographics: 1 rows\<newline>'',
       LogWrite ''Visit statistics calculated\<newline>'',
       LogWrite ''ICU statistics calculated\<newline>'',
       LogWrite ''Top diagnoses: 1 found\<newline>'']"
    by (simp add: run_default_cohort_analysis_def default_queries_def slow_default_env_def
        example_env_def str_nat.simps)
  from first_listed_script_is_run [OF ok(1) dir(1), of req1]
       first_listed_script_is_run [OF ok(2) dir(2), of req1]
       first_listed_script_is_run [OF ok(3) dir(3), of req1] ok dir
  show ?thesis
    by (auto simp add: endswith_def req1_def path dflt)
qed

text \<open>
  C5, as the specification states it, fails in two ways. On a timeout nothing of the
  captured output reaches the log: in \<open>timeout_env\<close> the child had printed before it was
  killed, and the log holds the two header lines only. And the default analysis is a
  runnable that no timeout stops: in \<open>slow_default_env\<close> the timeout is 10 seconds, the
  analysis ends 60 seconds after the status was created, and the execution is completed.
\<close>

theorem timeout_log_has_no_partial_output:
  "subprocess_run timeout_env [''Rscript'', ''/studies/s1/a.R''] 10 =
     TimeoutExpired ''partial out'' ''partial err'' \<and>
   log_text (snd (execute_study timeout_env req1)) [] =
     ''Executing R script: /studies/s1/a.R\<newline>Parameters: null\<newline>\<newline>'' \<and>
   timeout req1 = 10 \<and>
   utcnow_created slow_default_env = 100 \<and>
   fst (execute_study slow_default_env req1) =
     Inr \<lparr>study_id = ''s1'', execution_id = ''e1'', status = ''completed'',
          created_at = 100, completed_at = Some 160, error_message = None,
          results_available = True\<rparr>"
proof -
  have "log_text (snd (execute_study timeout_env req1)) [] =
      ''Executing R script: /studies/s1/a.R\<newline>Parameters: null\<newline>\<newline>''"
    by (simp add: timeout_env_def store_ok_example execute_study_store_ok)
       (simp add: example_simps run_selected_def execute_r_script_def)
  moreover have "store_ok slow_default_env"
    by (simp add: slow_default_env_def store_ok_def all_io_sites_def example_env_def)
  then have "fst (execute_study slow_default_env req1) =
     Inr \<lparr>study_id = ''s1'', execution_id = ''e1'', status = ''completed'',
          created_at = 100, completed_at = Some 160, error_message = None,
          results_available = True\<rparr>"
    by (simp add: execute_study_store_ok)
       (simp add: slow_default_env_def example_simps run_selected_def
          run_default_cohort_analysis_def default_queries_def json_dump_raises_def
          completed_status_def running_status_def)
  ultimately show ?thesis
    by (simp add: timeout_env_def slow_default_env_def example_env_def req1_def)
qed

text \<open>
  C5, amended: when no file operation fails and the selected R or Python script exceeds the
  timeout, the record persisted last has state \<^verbatim>\<open>failed\<close>, its error message names the
  timeout in seconds, and the log holds exactly the two header lines (script path and
  parameters), whatever output was captured before the child was killed. When the study
  has no script, the default analysis is run without any timeout: what the execution does
  is the same for every value of the timeout.
\<close>

theorem timeout_fails_with_header_only_log:
  assumes "store_ok E" and "study_dir E = Some names"
  shows "(glob_ext E (req_study_id request) ''.R'' names = r # rs \<longrightarrow>
          subprocess_run E [''Rscript'', r] (timeout request) = TimeoutExpired out err \<longrightarrow>
          (\<exists>st. status_file (snd (execute_study E request)) = Some (Whole st) \<and>
                status st = ''failed'' \<and>
                error_message st =
                  Some (''R script execution timed out after '' @ str_int (timeout request)
                        @ '' seconds'') \<and>
                completed_at st = Some (utcnow_failed E)) \<and>
          log_text (snd (execute_study E request)) [] =
            r_log_header E r (parameters request))
       \<and> (glob_ext E (req_study_id request) ''.R'' names = [] \<longrightarrow>
          glob_ext E (req_study_id request) ''.py'' names = p # ps \<longrightarrow>
          subprocess_run E [''python3'', p] (timeout request) = TimeoutExpired out err \<longrightarrow>
          (\<exists>st. status_file (snd (execute_study E request)) = Some (Whole st) \<and>
                status st = ''failed'' \<and>
                error_message st =
                  Some (''Python script execution timed out after ''
                        @ str_int (timeout request) @ '' seconds'') \<and>
                completed_at st = Some (utcnow_failed E)) \<and>
          log_text (snd (execute_study E request)) [] =
            python_log_header E p (parameters request))
       \<and> (glob_ext E (req_study_id request) ''.R'' names = [] \<longrightarrow>
          glob_ext E (req_study_id request) ''.py'' names = [] \<longrightarrow>
          execute_study E (request\<lparr>timeout := t\<rparr>) = execute_study E request)"
proof -
  have log: "io_error E Open_log = None"
    using assms(1) by (rule store_ok_site)
  have "glob_ext E (req_study_id request) ''.R'' names = [] \<Longrightarrow>
        glob_ext E (req_study_id request) ''.py'' names = [] \<Longrightarrow>
        execute_study E (request\<lparr>timeout := t\<rparr>) = execute_study E request"
    using assms(2) by (simp add: default_ignores_timeout)
  then show ?thesis
    using assms
    by (simp add: execute_study_store_ok run_selected_r run_selected_python
        r_script_timeout [OF log] python_script_timeout [OF log]
        status_simps log_simps read_simps)
qed

theorem timeout_fails_with_header_only_log_witness:
  "store_ok timeout_env \<and> study_dir timeout_env = Some [''a.R''] \<and>
   glob_ext timeout_env (req_study_id req1) ''.R'' [''a.R''] = [''/studies/s1/a.R''] \<and>
   subprocess_run timeout_env [''Rscript'', ''/studies/s1/a.R''] (timeout req1) =
     TimeoutExpired ''partial out'' ''partial err'' \<and>
   (\<exists>st. status_file (snd (execute_study timeout_env req1)) = Some (Whole st) \<and>
         status st = ''failed'' \<and>
         error_message st = Some ''R script execution timed out after 10 seconds'') \<and>
   store_ok python_timeout_env \<and>
   study_dir python_timeout_env = Some [''notes.txt'', ''a.py''] \<and>
   glob_ext python_timeout_env (req_study_id req1) ''.R'' [''notes.txt'', ''a.py''] = [] \<and>
   glob_ext python_timeout_env (req_study_id req1) ''.py'' [''notes.txt'', ''a.py''] =
     [''/studies/s1/a.py''] \<and>
   subprocess_run python_timeout_env [''python3'', ''/studies/s1/a.py''] (timeout req1) =
     TimeoutExpired ''partial out'' ''partial err'' \<and>
   (\<exists>st. status_file (snd (execute_study python_timeout_env req1)) = Some (Whole st) \<and>
         status st = ''failed'' \<and>
         error_message st = Some ''Python script execution timed out after 10 seconds'') \<and>
   log_text (snd (execute_study python_timeout_env req1)) [] =
     ''Executing Python script: /studies/s1/a.py\<newline>Parameters: null\<newline>\<newline>'' \<and>
   store_ok slow_default_env \<and> study_dir slow_default_env = Some [''notes.txt''] \<and>
   glob_ext slow_default_env (req_study_id req1) ''.R'' [''notes.txt''] = [] \<and>
   glob_ext slow_default_env (req_study_id req1) ''.py'' [''notes.txt''] = [] \<and>
   execute_study slow_default_env (req1\<lparr>timeout := 3600\<rparr>) =
     execute_study slow_default_env req1"
proof -
  have ok: "store_ok timeout_env" "store_ok python_timeout_env" "store_ok slow_default_env"
    by (simp_all add: timeout_env_def python_timeout_env_def slow_default_env_def
        store_ok_def all_io_sites_def example_env_def)
  have dir: "study_dir timeout_env = Some [''a.R'']"
    "study_dir python_timeout_env = Some [''notes.txt'', ''a.py'']"
    "study_dir slow_default_env = Some [''notes.txt'']"
    by (simp_all add: timeout_env_def python_timeout_env_def slow_default_env_def
        example_env_def)
  have glob:
    "glob_ext timeout_env (req_study_id req1) ''.R'' [''a.R''] = [''/studies/s1/a.R'']"
    "glob_ext python_timeout_env (req_study_id req1) ''.R'' [''notes.txt'', ''a.py''] = []"
    "glob_ext python_timeout_env (req_study_id req1) ''.py'' [''notes.txt'', ''a.py''] =
       [''/studies/s1/a.py'']"
    "glob_ext slow_default_env (req_study_id req1) ''.R'' [''notes.txt''] = []"
    "glob_ext slow_default_env (req_study_id req1) ''.py'' [''notes.txt''] = []"
    by (simp_all add: glob_ext_def endswith_def req1_def timeout_env_def
        python_timeout_env_def slow_default_env_def example_env_def)
  have run: "subprocess_run timeout_env [''Rscript'', ''/studies/s1/a.R''] (timeout req1) =
       TimeoutExpired ''partial out'' ''partial err''"
    "subprocess_run python_timeout_env [''python3'', ''/studies/s1/a.py''] (timeout req1) =
       TimeoutExpired ''partial out'' ''partial err''"
    by (simp_all add: timeout_env_def python_timeout_env_def example_env_def)
  have ten: "str_int (timeout req1) = ''10''"
    by (simp add: req1_def str_int_def str_nat.simps)
  have dumps: "json_dumps python_timeout_env (parameters req1) = ''null''"
    by (simp add: python_timeout_env_def example_env_def)
  from timeout_fails_with_header_only_log [OF ok(1) dir(1), of req1 "''/studies/s1/a.R''" "[]"
         "''partial out''" "''partial err''"]
       timeout_fails_with_header_only_log [OF ok(2) dir(2), of req1 _ _
         "''partial out''" "''partial err''" "''/studies/s1/a.py''" "[]"]
       timeout_fails_with_header_only_log [OF ok(3) dir(3), of req1 _ _ _ _ _ _ 3600]
       ok dir glob run
  show ?thesis
    by (auto simp add: ten dumps python_log_header_def)
qed

text \<open>
  C6: when no file operation fails and the selected R or Python script exits with code 0,
  the runner returns the value \<^verbatim>\<open>json.loads\<close> parses from stdout, and the record with the
  two entries \<^verbatim>\<open>output\<close>, holding that stdout, and \<^verbatim>\<open>type\<close>, holding \<^verbatim>\<open>text\<close>, when \<^verbatim>\<open>json.loads\<close>
  raises; it returns in both cases, never raises. In the fallback case that record is what
  \<^verbatim>\<open>results.json\<close> receives, and the execution ends with state \<^verbatim>\<open>completed\<close>, returned and
  persisted. A parsed value is persisted in the same way whenever \<^verbatim>\<open>json.dump\<close> can write it.
\<close>

theorem stdout_is_parsed_or_wrapped:
  assumes "store_ok E" and "study_dir E = Some names"
  shows "(glob_ext E (req_study_id request) ''.R'' names = r # rs \<longrightarrow>
          subprocess_run E [''Rscript'', r] (timeout request) = Completed 0 out err \<longrightarrow>
          (json_loads E out = Some v \<longrightarrow>
             fst (execute_r_script E r (parameters request) (timeout request)) = Inr v) \<and>
          (json_loads E out = Some v \<longrightarrow> nesting v \<le> Suc (dump_depth E) \<longrightarrow>
             results_file (snd (execute_study E request)) = Some (Whole v) \<and>
             fst (execute_study E request) = Inr (completed_status E request)) \<and>
          (json_loads E out = None \<longrightarrow>
             fst (execute_r_script E r (parameters request) (timeout request)) =
               Inr (JObj [(''output'', JStr out), (''type'', JStr ''text'')]) \<and>
             results_file (snd (execute_study E request)) =
               Some (Whole (JObj [(''output'', JStr out), (''type'', JStr ''text'')])) \<and>
             (\<exists>st. fst (execute_study E request) = Inr st \<and> status st = ''completed'' \<and>
                   results_available st \<and>
                   status_file (snd (execute_study E request)) = Some (Whole st))))
       \<and> (glob_ext E (req_study_id request) ''.R'' names = [] \<longrightarrow>
          glob_ext E (req_study_id request) ''.py'' names = p # ps \<longrightarrow>
          subprocess_run E [''python3'', p] (timeout request) = Completed 0 out err \<longrightarrow>
          (json_loads E out = Some v \<longrightarrow>
             fst (execute_python_script E p (parameters request) (timeout request)) = Inr v) \<and>
          (json_loads E out = Some v \<longrightarrow> nesting v \<le> Suc (dump_depth E) \<longrightarrow>
             results_file (snd (execute_study E request)) = Some (Whole v) \<and>
             fst (execute_study E request) = Inr (completed_status E request)) \<and>
          (json_loads E out = None \<longrightarrow>
             fst (execute_python_script E p (parameters request) (timeout request)) =
               Inr (JObj [(''output'', JStr out), (''type'', JStr ''text'')]) \<and>
             results_file (snd (execute_study E request)) =
               Some (Whole (JObj [(''output'', JStr out), (''type'', JStr ''text'')])) \<and>
             (\<exists>st. fst (execute_study E request) = Inr st \<and> status st = ''completed'' \<and>
                   results_available st \<and>
                   status_file (snd (execute_study E request)) = Some (Whole st))))"
proof -
  have log: "io_error E Open_log = None"
    using assms(1) by (rule store_ok_site)
  show ?thesis
    using assms
    by (simp add: execute_study_store_ok run_selected_r run_selected_python
        r_script_zero_exit [OF log] python_script_zero_exit [OF log]
        interpret_stdout_def text_record_def json_dump_raises_def status_simps read_simps)
qed

theorem stdout_is_parsed_or_wrapped_witness:
  "(let E = example_env (Some [''a.R'']) (Completed 0 ''hello'' [])
    in store_ok E \<and> study_dir E = Some [''a.R''] \<and>
       glob_ext E (req_study_id req1) ''.R'' [''a.R''] = [''/studies/s1/a.R''] \<and>
       subprocess_run E [''Rscript'', ''/studies/s1/a.R''] (timeout req1) =
         Completed 0 ''hello'' [] \<and>
       json_loads E ''hello'' = None \<and>
       results_file (snd (execute_study E req1)) =
         Some (Whole (JObj [(''output'', JStr ''hello''), (''type'', JStr ''text'')])) \<and>
       (\<exists>st. fst (execute_study E req1) = Inr st \<and> status st = ''completed'')) \<and>
   (let E = example_env (Some [''a.py'']) (Completed 0 ''{}'' [])
    in store_ok E \<and> study_dir E = Some [''a.py''] \<and>
       glob_ext E (req_study_id req1) ''.R'' [''a.py''] = [] \<and>
       glob_ext E (req_study_id req1) ''.py'' [''a.py''] = [''/studies/s1/a.py''] \<and>
       subprocess_run E [''python3'', ''/studies/s1/a.py''] (timeout req1) =
         Completed 0 ''{}'' [] \<and>
       json_loads E ''{}'' = Some (JObj []) \<and> nesting (JObj []) \<le> Suc (dump_depth E) \<and>
       results_file (snd (execute_study E req1)) = Some (Whole (JObj [])) \<and>
       (\<exists>st. fst (execute_study E req1) = Inr st \<and> status st = ''completed''))"
proof -
  let ?E = "example_env (Some [''a.R'']) (Completed 0 ''hello'' [])"
  let ?P = "example_env (Some [''a.py'']) (Completed 0 ''{}'' [])"
  have dir: "study_dir ?E = Some [''a.R'']" "study_dir ?P = Some [''a.py'']"
    by (simp_all add: example_env_def)
  have glob: "glob_ext ?E (req_study_id req1) ''.R'' [''a.R''] = [''/studies/s1/a.R'']"
    "glob_ext ?P (req_study_id req1) ''.R'' [''a.py''] = []"
    "glob_ext ?P (req_study_id req1) ''.py'' [''a.py''] = [''/studies/s1/a.py'']"
    by (simp_all add: glob_ext_def endswith_def req1_def example_env_def)
  have run: "subprocess_run ?E [''Rscript'', ''/studies/s1/a.R''] (timeout req1) =
       Completed 0 ''hello'' []"
    "subprocess_run ?P [''python3'', ''/studies/s1/a.py''] (timeout req1) =
       Completed 0 ''{}'' []"
    by (simp_all add: example_env_def)
  have loads: "json_loads ?E ''hello'' = None" "json_loads ?P ''{}'' = Some (JObj [])"
    by (simp_all add: example_env_def)
  have depth: "nesting (JObj []) \<le> Suc (dump_depth ?P)"
    by (simp add: example_env_def)
  from stdout_is_parsed_or_wrapped [OF store_ok_example dir(1), of req1
         "''/studies/s1/a.R''" "[]" "''hello''" "[]"]
       stdout_is_parsed_or_wrapped [OF store_ok_example dir(2), of req1 _ _
         "''{}''" "[]" "JObj []" "''/studies/s1/a.py''" "[]"]
       dir glob run loads depth
  show ?thesis
    by (auto simp add: Let_def store_ok_example completed_status_def)
qed

text \<open>
  C7: when no file operation fails and the selected R or Python script ends with a return
  code other than 0, \<^verbatim>\<open>subprocess.run\<close> has returned normally (both output sections are in
  the log, in full), the record persisted last has state \<^verbatim>\<open>failed\<close> with an error message
  made of the return code and the standard error text, and no result document is written.
\<close>

theorem nonzero_exit_fails_without_result:
  assumes "store_ok E" and "study_dir E = Some names" and "rc \<noteq> 0"
  shows "(glob_ext E (req_study_id request) ''.R'' names = r # rs \<longrightarrow>
          subprocess_run E [''Rscript'', r] (timeout request) = Completed rc out err \<longrightarrow>
          (\<exists>st. status_file (snd (execute_study E request)) = Some (Whole st) \<and>
                status st = ''failed'' \<and>
                error_message st =
                  Some (''R script failed with code '' @ str_int rc @ '': '' @ err) \<and>
                completed_at st = Some (utcnow_failed E)) \<and>
          results_writes (snd (execute_study E request)) = [] \<and>
          results_file (snd (execute_study E request)) = None \<and>
          log_text (snd (execute_study E request)) [] =
            r_log_header E r (parameters request) @ output_sections out err)
       \<and> (glob_ext E (req_study_id request) ''.R'' names = [] \<longrightarrow>
          glob_ext E (req_study_id request) ''.py'' names = p # ps \<longrightarrow>
          subprocess_run E [''python3'', p] (timeout request) = Completed rc out err \<longrightarrow>
          (\<exists>st. status_file (snd (execute_study E request)) = Some (Whole st) \<and>
                status st = ''failed'' \<and>
                error_message st =
                  Some (''Python script failed with code '' @ str_int rc @ '': '' @ err) \<and>
                completed_at st = Some (utcnow_failed E)) \<and>
          results_writes (snd (execute_study E request)) = [] \<and>
          results_file (snd (execute_study E request)) = None \<and>
          log_text (snd (execute_study E request)) [] =
            python_log_header E p (parameters request) @ output_sections out err)"
proof -
  have log: "io_error E Open_log = None"
    using assms(1) by (rule store_ok_site)
  show ?thesis
    using assms
    by (simp add: execute_study_store_ok run_selected_r run_selected_python
        r_script_nonzero_exit [OF log] python_script_nonzero_exit [OF log]
        status_simps log_simps read_simps)
qed

theorem nonzero_exit_fails_without_result_witness:
  "(let E = example_env (Some [''a.R'']) (Completed 3 ''out'' ''boom'')
    in store_ok E \<and> study_dir E = Some [''a.R''] \<and> (3::int) \<noteq> 0 \<and>
       glob_ext E (req_study_id req1) ''.R'' [''a.R''] = [''/studies/s1/a.R''] \<and>
       subprocess_run E [''Rscript'', ''/studies/s1/a.R''] (timeout req1) =
         Completed 3 ''out'' ''boom'' \<and>
       (\<exists>st. status_file (snd (execute_study E req1)) = Some (Whole st) \<and>
             status st = ''failed'' \<and>
             error_message st = Some ''R script failed with code 3: boom'') \<and>
       results_writes (snd (execute_study E req1)) = []) \<and>
   (let E = example_env (Some [''a.py'']) (Completed (- 9) ''out'' ''boom'')
    in store_ok E \<and> study_dir E = Some [''a.py''] \<and> (- 9::int) \<noteq> 0 \<and>
       glob_ext E (req_study_id req1) ''.R'' [''a.py''] = [] \<and>
       glob_ext E (req_study_id req1) ''.py'' [''a.py''] = [''/studies/s1/a.py''] \<and>
       subprocess_run E [''python3'', ''/studies/s1/a.py''] (timeout req1) =
         Completed (- 9) ''out'' ''boom'' \<and>
       (\<exists>st. status_file (snd (execute_study E req1)) = Some (Whole st) \<and>
             status st = ''failed'' \<and>
             error_message st = Some ''Python script failed with code -9: boom'') \<and>
       results_writes (snd (execute_study E req1)) = [])"
proof -
  let ?E = "example_env (Some [''a.R'']) (Completed 3 ''out'' ''boom'')"
  let ?P = "example_env (Some [''a.py'']) (Completed (- 9) ''out'' ''boom'')"
  have dir: "study_dir ?E = Some [''a.R'']" "study_dir ?P = Some [''a.py'']"
    by (simp_all add: example_env_def)
  have glob: "glob_ext ?E (req_study_id req1) ''.R'' [''a.R''] = [''/studies/s1/a.R'']"
    "glob_ext ?P (req_study_id req1) ''.R'' [''a.py''] = []"
    "glob_ext ?P (req_study_id req1) ''.py'' [''a.py''] = [''/studies/s1/a.py'']"
    by (simp_all add: glob_ext_def endswith_def req1_def example_env_def)
  have run: "subprocess_run ?E [''Rscript'', ''/studies/s1/a.R''] (timeout req1) =
       Completed 3 ''out'' ''boom''"
    "subprocess_run ?P [''python3'', ''/studies/s1/a.py''] (timeout req1) =
       Completed (- 9) ''out'' ''boom''"
    by (simp_all add: example_env_def)
  have code: "str_int 3 = ''3''" "str_int (- 9) = ''-9''"
    by (simp_all add: str_int_def str_nat.simps)
  have nz: "(3::int) \<noteq> 0" "(- 9::int) \<noteq> 0"
    by simp_all
  from nonzero_exit_fails_without_result [OF store_ok_example dir(1) nz(1), of req1
         "''/studies/s1/a.R''" "[]" "''out''" "''boom''"]
       nonzero_exit_fails_without_result [OF store_ok_example dir(2) nz(2), of req1 _ _
         "''out''" "''boom''" "''/studies/s1/a.py''" "[]"]
       dir glob run
  show ?thesis
    by (auto simp add: Let_def store_ok_example code)
qed




text \<open>
  C9, as the specification states it, fails for the reads. In \<open>pending_env\<close> the script
  stores a record with state \<^verbatim>\<open>pending\<close> in \<^verbatim>\<open>status.json\<close> of its working directory: a read
  after the first eight effects of the execution returns that record. And the endpoint
  empties \<^verbatim>\<open>status.json\<close> before it dumps a record into it: a read after the first two effects
  raises instead of returning a record.
\<close>

theorem read_returns_pending_counterexample:
  "get_execution_status None (take 8 (snd (execute_study pending_env req1))) =
     Inr \<lparr>ss_study_id = ''s1'', ss_execution_id = ''e1'', ss_status = ''pending'',
          ss_created_at = 100, ss_completed_at = None, ss_error_message = None\<rparr> \<and>
   get_execution_status None (take 2 (snd (execute_study pending_env req1))) =
     Inl (LibraryError ''JSONDecodeError'')"
proof -
  have ok: "store_ok pending_env"
    by (simp add: pending_env_def store_ok_def all_io_sites_def example_env_def)
  have "snd (execute_study pending_env req1) =
      [Mkdir, OpenStatus, WriteStatus (running_status pending_env req1), OpenLog,
       LogWrite ''Executing Python script: /studies/s1/a.py\<newline>'',
       LogWrite ''Parameters: null\<newline>\<newline>'',
       Run [''python3'', ''/studies/s1/a.py''],
       ChildWrote (Whole pending_record),
       LogWrite ''=== STDOUT ===\<newline>'', LogWrite ''{}'',
       LogWrite ''\<newline>=== STDERR ===\<newline>'', LogWrite [],
       OpenResults, WriteResults (JObj []), OpenStatus,
       WriteStatus (completed_status pending_env req1)]"
    by (simp add: execute_study_store_ok [OF ok])
       (simp add: pending_env_def example_simps run_selected_def execute_python_script_def
          json_dump_raises_def)
  then show ?thesis
    by (simp add: get_execution_status_def pending_record_def)
qed

text \<open>
  C9, amended: the engine itself never writes the state \<^verbatim>\<open>pending\<close>. Whatever the environment
  does, every status record \<^verbatim>\<open>execute_study\<close> writes has state \<^verbatim>\<open>running\<close>, \<^verbatim>\<open>completed\<close> or
  \<^verbatim>\<open>failed\<close>, and when its first write of \<^verbatim>\<open>status.json\<close> succeeds, the first record written
  has state \<^verbatim>\<open>running\<close> (none is written only when the directory could not be made). When
  the child process leaves \<^verbatim>\<open>status.json\<close> alone and nothing but this execution writes
  the file, every read by \<^verbatim>\<open>get_execution_status\<close>, at any moment of the execution, that
  returns a record returns one with one of these three states or the record that was
  there before the execution began; a read can still raise while the file is emptied and
  not yet written.
\<close>

theorem pending_is_never_written:
  "(\<forall>s \<in> set (status_writes (snd (execute_study E request))).
      status s = ''running'' \<or> status s = ''completed'' \<or> status s = ''failed'') \<and>
   (io_error E Open_status_running = None \<longrightarrow>
      (case status_writes (snd (execute_study E request)) of
         [] \<Rightarrow> io_error E Mkdir_exec_dir \<noteq> None
       | s # ss \<Rightarrow> status s = ''running'')) \<and>
   (child_writes (snd (execute_study E request)) = [] \<longrightarrow>
      (\<forall>n. case get_execution_status before (take n (snd (execute_study E request))) of
              Inl x \<Rightarrow> True
            | Inr ss \<Rightarrow> ss_status ss = ''running'' \<or> ss_status ss = ''completed'' \<or>
                       ss_status ss = ''failed'' \<or>
                       get_execution_status before [] = Inr ss))"
proof (intro conjI allI ballI impI)
  fix s
  assume "s \<in> set (status_writes (snd (execute_study E request)))"
  from written_records [OF this]
  show "status s = ''running'' \<or> status s = ''completed'' \<or> status s = ''failed''"
    by simp
next
  assume "io_error E Open_status_running = None"
  from first_write_running [OF this, of request]
  show "case status_writes (snd (execute_study E request)) of
         [] \<Rightarrow> io_error E Mkdir_exec_dir \<noteq> None
       | s # ss \<Rightarrow> status s = ''running''"
    by (auto simp: running_status_def split: list.splits)
next
  fix n
  assume "child_writes (snd (execute_study E request)) = []"
  from status_after_prefix [OF this, of before n]
  show "case get_execution_status before (take n (snd (execute_study E request))) of
          Inl x \<Rightarrow> True
        | Inr ss \<Rightarrow> ss_status ss = ''running'' \<or> ss_status ss = ''completed'' \<or>
                   ss_status ss = ''failed'' \<or>
                   get_execution_status before [] = Inr ss"
    by (auto simp: get_execution_status_def dest: written_records
        split: option.splits content.splits)
qed

theorem pending_is_never_written_witness:
  "io_error unsorted_env Open_status_running = None \<and>
   child_writes (snd (execute_study unsorted_env req1)) = [] \<and>
   map status (status_writes (snd (execute_study unsorted_env req1))) =
     [''running'', ''completed''] \<and>
   (case get_execution_status None (take 3 (snd (execute_study unsorted_env req1))) of
      Inl x \<Rightarrow> False
    | Inr ss \<Rightarrow> ss_status ss = ''running'') \<and>
   (case get_execution_status None (snd (execute_study unsorted_env req1)) of
      Inl x \<Rightarrow> False
    | Inr ss \<Rightarrow> ss_status ss = ''completed'')"
proof -
  have io: "io_error unsorted_env Open_status_running = None"
    by (simp add: unsorted_env_def example_env_def)
  have tr: "snd (execute_study unsorted_env req1) =
      [Mkdir, OpenStatus, WriteStatus (running_status unsorted_env req1), OpenLog,
       LogWrite ''Executing R script: /studies/s1/b.R\<newline>'',
       LogWrite ''Parameters: null\<newline>\<newline>'',
       Run [''Rscript'', ''/studies/s1/b.R''],
       LogWrite ''=== STDOUT ===\<newline>'', LogWrite [],
       LogWrite ''\<newline>=== STDERR ===\<newline>'', LogWrite [],
       OpenResults, WriteResults (JObj [(''output'', JStr []), (''type'', JStr ''text'')]),
       OpenStatus, WriteStatus (completed_status unsorted_env req1)]"
    by (simp add: unsorted_env_def store_ok_example execute_study_store_ok)
       (simp add: example_simps run_selected_def execute_r_script_def json_dump_raises_def)
  from pending_is_never_written [of unsorted_env req1 None] io
  show ?thesis
    by (simp add: tr get_execution_status_def status_simps)
qed

text \<open>
  C10: when no file operation fails, the selected R or Python script exits with code 0 and
  \<^verbatim>\<open>json.loads\<close> parses its stdout to a scalar (null, a boolean, a number or a string), that
  scalar is what the runner returns and the one document written to \<^verbatim>\<open>results.json\<close>; it is
  neither a mapping, nor a list, nor the text record.
\<close>

theorem scalar_json_is_persisted_verbatim:
  assumes "store_ok E" and "study_dir E = Some names"
    and "json_loads E out = Some v" and "is_scalar v"
  shows "(glob_ext E (req_study_id request) ''.R'' names = r # rs \<longrightarrow>
          subprocess_run E [''Rscript'', r] (timeout request) = Completed 0 out err \<longrightarrow>
          fst (execute_r_script E r (parameters request) (timeout request)) = Inr v \<and>
          results_file (snd (execute_study E request)) = Some (Whole v) \<and>
          results_writes (snd (execute_study E request)) = [v])
       \<and> (glob_ext E (req_study_id request) ''.R'' names = [] \<longrightarrow>
          glob_ext E (req_study_id request) ''.py'' names = p # ps \<longrightarrow>
          subprocess_run E [''python3'', p] (timeout request) = Completed 0 out err \<longrightarrow>
          fst (execute_python_script E p (parameters request) (timeout request)) = Inr v \<and>
          results_file (snd (execute_study E request)) = Some (Whole v) \<and>
          results_writes (snd (execute_study E request)) = [v])
       \<and> \<not> is_mapping v \<and> \<not> is_list v
       \<and> v \<noteq> JObj [(''output'', JStr out), (''type'', JStr ''text'')]"
proof -
  have log: "io_error E Open_log = None"
    using assms(1) by (rule store_ok_site)
  have "\<not> is_mapping v \<and> \<not> is_list v \<and>
        v \<noteq> JObj [(''output'', JStr out), (''type'', JStr ''text'')]"
    using assms(4) by (cases v) simp_all
  then show ?thesis
    using assms scalar_dumps [OF assms(4), of E]
    by (simp add: execute_study_store_ok run_selected_r run_selected_python
        r_script_zero_exit [OF log] python_script_zero_exit [OF log]
        interpret_stdout_def status_simps read_simps)
qed

theorem scalar_json_is_persisted_verbatim_witness:
  "(let E = example_env (Some [''a.R'']) (Completed 0 ''42'' [])
    in store_ok E \<and> study_dir E = Some [''a.R''] \<and>
       json_loads E ''42'' = Some (JInt 42) \<and> is_scalar (JInt 42) \<and>
       glob_ext E (req_study_id req1) ''.R'' [''a.R''] = [''/studies/s1/a.R''] \<and>
       subprocess_run E [''Rscript'', ''/studies/s1/a.R''] (timeout req1) =
         Completed 0 ''42'' [] \<and>
       results_file (snd (execute_study E req1)) = Some (Whole (JInt 42))) \<and>
   (let E = example_env (Some [''a.py'']) (Completed 0 ''null'' [])
    in store_ok E \<and> study_dir E = Some [''a.py''] \<and>
       json_loads E ''null'' = Some JNull \<and> is_scalar JNull \<and>
       glob_ext E (req_study_id req1) ''.R'' [''a.py''] = [] \<and>
       glob_ext E (req_study_id req1) ''.py'' [''a.py''] = [''/studies/s1/a.py''] \<and>
       subprocess_run E [''python3'', ''/studies/s1/a.py''] (timeout req1) =
         Completed 0 ''null'' [] \<and>
       results_file (snd (execute_study E req1)) = Some (Whole JNull))"
proof -
  let ?E = "example_env (Some [''a.R'']) (Completed 0 ''42'' [])"
  let ?P = "example_env (Some [''a.py'']) (Completed 0 ''null'' [])"
  have dir: "study_dir ?E = Some [''a.R'']" "study_dir ?P = Some [''a.py'']"
    by (simp_all add: example_env_def)
  have glob: "glob_ext ?E (req_study_id req1) ''.R'' [''a.R''] = [''/studies/s1/a.R'']"
    "glob_ext ?P (req_study_id req1) ''.R'' [''a.py''] = []"
    "glob_ext ?P (req_study_id req1) ''.py'' [''a.py''] = [''/studies/s1/a.py'']"
    by (simp_all add: glob_ext_def endswith_def req1_def example_env_def)
  have run: "subprocess_run ?E [''Rscript'', ''/studies/s1/a.R''] (timeout req1) =
       Completed 0 ''42'' []"
    "subprocess_run ?P [''python3'', ''/studies/s1/a.py''] (timeout req1) =
       Completed 0 ''null'' []"
    by (simp_all add: example_env_def)
  have loads: "json_loads ?E ''42'' = Some (JInt 42)" "json_loads ?P ''null'' = Some JNull"
    by (simp_all add: example_env_def)
  have sc: "is_scalar (JInt 42)" "is_scalar JNull"
    by simp_all
  from scalar_json_is_persisted_verbatim [OF store_ok_example dir(1) loads(1) sc(1), of req1
         "''/studies/s1/a.R''" "[]" "[]"]
       scalar_json_is_persisted_verbatim [OF store_ok_example dir(2) loads(2) sc(2), of req1
         _ _ "[]" "''/studies/s1/a.py''" "[]"]
       dir glob run loads
  show ?thesis
    by (simp add: Let_def store_ok_example)
qed

end
